theory Spec2Isabelle
  imports Main "HOL-Library.Word"
begin

section \<open>The interactive GATT shell of \<^verbatim>\<open>jni/attrib/interactive.c\<close>\<close>

text \<open>
  The shell is a single-threaded event loop: an input line is handed to \<^verbatim>\<open>parse_line\<close>,
  which looks the command up and runs its handler; the handler prints lines and calls the
  GATT library, which later runs the completion callback the handler gave it. The model
  follows that structure. The process-wide variables of the file are one record, every
  handler and every callback is a function from that record to the updated record, every
  \<^verbatim>\<open>printf\<close> appends its format string and arguments to the field \<open>stdout\<close>, and every
  call into the collaborating libraries (gatt, gattrib, btio) appends the call and its
  arguments to the field \<open>calls\<close>. What those libraries answer is an input of the model:
  the pure ones (parsers, decoders) are functions of the record \<open>env\<close>, the answers of the
  transport during one event are fields of the same record. Calls into readline
  (\<^verbatim>\<open>rl_forced_update_display\<close>, \<^verbatim>\<open>rl_set_prompt\<close>) only redraw the prompt and are
  left out, as are \<^verbatim>\<open>g_free\<close> and \<^verbatim>\<open>g_strdup\<close>.
\<close>

subsection \<open>Constants of the headers\<close>

text \<open>
  Modelled from the spec: \<^verbatim>\<open>att.h\<close>, \<^verbatim>\<open>btio.h\<close> and \<^verbatim>\<open>errno.h\<close> are not among the
  sources. The spec names the error codes ("attribute not found", "the protocol's default
  minimum") without their numbers; the numbers below are those of the attribute protocol
  and of Linux.
\<close>

definition ATT_ECODE_INVALID_HANDLE :: int where "ATT_ECODE_INVALID_HANDLE = 0x01"
definition ATT_ECODE_INVALID_PDU :: int where "ATT_ECODE_INVALID_PDU = 0x04"
definition ATT_ECODE_INVALID_OFFSET :: int where "ATT_ECODE_INVALID_OFFSET = 0x07"
definition ATT_ECODE_ATTR_NOT_FOUND :: int where "ATT_ECODE_ATTR_NOT_FOUND = 0x0A"
definition ATT_ECODE_UNLIKELY :: int where "ATT_ECODE_UNLIKELY = 0x0E"
definition ATT_DEFAULT_LE_MTU :: int where "ATT_DEFAULT_LE_MTU = 23"
definition ATT_OP_HANDLE_NOTIFY :: "8 word" where "ATT_OP_HANDLE_NOTIFY = 0x1B"
definition ATT_OP_HANDLE_IND :: "8 word" where "ATT_OP_HANDLE_IND = 0x1D"
definition EINVAL :: int where "EINVAL = 22"
definition LLONG_MAX :: int where "LLONG_MAX = 2 ^ 63 - 1"
definition LLONG_MIN :: int where "LLONG_MIN = - (2 ^ 63)"

datatype BtIOSecLevel = BT_IO_SEC_SDP | BT_IO_SEC_LOW | BT_IO_SEC_MEDIUM | BT_IO_SEC_HIGH

subsection \<open>C integers and the C library\<close>

text \<open>
  A C \<^verbatim>\<open>int\<close> is held as a HOL integer; where the source narrows a wider value into an
  \<^verbatim>\<open>int\<close> or a \<^verbatim>\<open>uint16_t\<close> the narrowing is written out (two's complement, 32 and 16
  bits). Strings are the C strings without their terminating NUL.
\<close>

definition to_int :: "int \<Rightarrow> int" where
  "to_int v = sint (word_of_int v :: 32 word)"

definition to_uint16 :: "int \<Rightarrow> 16 word" where
  "to_uint16 v = word_of_int v"

definition isspace :: "char \<Rightarrow> bool" where
  "isspace c = (c \<in> set [CHR 0x20, CHR 0x09, CHR 0x0A, CHR 0x0B, CHR 0x0C, CHR 0x0D])"

definition tolower :: "char \<Rightarrow> char" where
  "tolower c =
     (case map_of (zip ''ABCDEFGHIJKLMNOPQRSTUVWXYZ'' ''abcdefghijklmnopqrstuvwxyz'') c of
        Some l \<Rightarrow> l
      | None \<Rightarrow> c)"

text \<open>\<^verbatim>\<open>strcasecmp(a, b) == 0\<close> and \<^verbatim>\<open>g_strcmp0(a, b) == 0\<close>.\<close>

definition strcasecmp_eq :: "string \<Rightarrow> string \<Rightarrow> bool" where
  "strcasecmp_eq a b = (map tolower a = map tolower b)"

definition g_strcmp0_eq :: "string \<Rightarrow> string \<Rightarrow> bool" where
  "g_strcmp0_eq a b = (a = b)"

text \<open>
  The value of a character as a digit of \<^verbatim>\<open>strtol\<close>: \<open>0\<close> to \<open>9\<close>, then the letters of
  either case from 10 on.
\<close>

definition digit_val :: "char \<Rightarrow> nat option" where
  "digit_val c =
     (let n = (of_char c :: nat) in
      if 48 \<le> n \<and> n \<le> 57 then Some (n - 48)
      else if 97 \<le> n \<and> n \<le> 122 then Some (n - 87)
      else if 65 \<le> n \<and> n \<le> 90 then Some (n - 55)
      else None)"

fun scan_digits :: "nat \<Rightarrow> int \<Rightarrow> string \<Rightarrow> int \<times> string" where
  "scan_digits b acc [] = (acc, [])"
| "scan_digits b acc (c # cs) =
     (case digit_val c of
        Some d \<Rightarrow> if d < b then scan_digits b (acc * int b + int d) cs else (acc, c # cs)
      | None \<Rightarrow> (acc, c # cs))"

text \<open>The sign of \<^verbatim>\<open>strtol\<close>: whether it is negative, and the text after it.\<close>

fun scan_sign :: "string \<Rightarrow> bool \<times> string" where
  "scan_sign [] = (False, [])"
| "scan_sign (c # cs) =
     (if c = CHR ''-'' then (True, cs)
      else if c = CHR ''+'' then (False, cs)
      else (False, c # cs))"

text \<open>
  The base and the text of the digits: with base 16 or 0 a prefix \<^verbatim>\<open>0x\<close> before a
  hexadecimal digit is skipped; with base 0 a leading \<^verbatim>\<open>0\<close> selects octal, anything
  else decimal.
\<close>

definition is_hex_prefix :: "string \<Rightarrow> bool" where
  "is_hex_prefix s =
     (case s of
        z # x # d # _ \<Rightarrow>
          z = CHR ''0'' \<and> (x = CHR ''x'' \<or> x = CHR ''X'') \<and>
          (case digit_val d of Some v \<Rightarrow> v < 16 | None \<Rightarrow> False)
      | _ \<Rightarrow> False)"

definition scan_base :: "nat \<Rightarrow> string \<Rightarrow> nat \<times> string" where
  "scan_base base s =
     (if (base = 0 \<or> base = 16) \<and> is_hex_prefix s then (16, drop 2 s)
      else if base = 0 then (if take 1 s = ''0'' then (8, s) else (10, s))
      else (base, s))"

text \<open>
  \<^verbatim>\<open>strtoll(src, &e, base)\<close>: the value, the text \<^verbatim>\<open>e\<close> points to, and whether
  \<^verbatim>\<open>errno\<close> is set (to \<^verbatim>\<open>ERANGE\<close>, when the value does not fit a \<^verbatim>\<open>long long\<close> and is
  clamped). With no digit at all the value is 0 and \<^verbatim>\<open>e\<close> is \<^verbatim>\<open>src\<close>.
\<close>

definition strtoll :: "string \<Rightarrow> nat \<Rightarrow> int \<times> string \<times> bool" where
  "strtoll src base =
     (let (neg, s2) = scan_sign (dropWhile isspace src);
          (b, s3) = scan_base base s2;
          (v, rest) = scan_digits b 0 s3
      in if length rest = length s3 then (0, src, False)
         else if neg \<and> - v < LLONG_MIN then (LLONG_MIN, rest, True)
         else if \<not> neg \<and> LLONG_MAX < v then (LLONG_MAX, rest, True)
         else (if neg then - v else v, rest, False))"

text \<open>
  \<^verbatim>\<open>strtohandle\<close>: \<^verbatim>\<open>errno = 0; dst = strtoll(src, &e, 16);
  if (errno != 0 || *e != '\0') return -EINVAL; return dst;\<close> where \<^verbatim>\<open>dst\<close> is an
  \<^verbatim>\<open>int\<close>.
\<close>

definition strtohandle :: "string \<Rightarrow> int" where
  "strtohandle src =
     (let (v, e, errno) = strtoll src 16;
          dst = to_int v
      in if errno \<or> e \<noteq> [] then - EINVAL else dst)"

subsection \<open>The data of the file\<close>

text \<open>\<^verbatim>\<open>enum state\<close>.\<close>

datatype state = STATE_DISCONNECTED | STATE_CONNECTING | STATE_CONNECTED

text \<open>
  \<^verbatim>\<open>bt_uuid_t\<close> of \<^verbatim>\<open>bluetooth/uuid.h\<close>, and a \<^verbatim>\<open>GError\<close> with its code and message.
\<close>

datatype bt_uuid_t = BT_UUID16 "16 word" | BT_UUID128 "128 word"

record GError =
  code :: int
  message :: string

text \<open>
  \<^verbatim>\<open>struct characteristic_data\<close>; the fields carry the prefix \<open>cd\<close> because \<open>start\<close>
  and \<open>end\<close> are also variables of the file.
\<close>

record characteristic_data =
  cd_orig_start :: "16 word"
  cd_start :: "16 word"
  cd_end :: "16 word"
  cd_uuid :: bt_uuid_t

text \<open>
  \<^verbatim>\<open>struct att_data_list\<close>: \<open>len\<close> is the length of every element, \<open>data\<close> the elements,
  \<^verbatim>\<open>num\<close> their number. An element \<^verbatim>\<open>value\<close> is held as the pair of
  \<^verbatim>\<open>att_get_u16(value)\<close>, the handle in its first two bytes, and the bytes from
  \<^verbatim>\<open>&value[2]\<close> on.
\<close>

type_synonym att_data = "16 word \<times> 8 word list"

record att_data_list =
  len :: int
  data :: "att_data list"

text \<open>
  An argument of a \<^verbatim>\<open>printf\<close>: a 16-bit handle (printed by \<^verbatim>\<open>%04x\<close>), an integer
  (\<^verbatim>\<open>%i\<close>, \<^verbatim>\<open>%d\<close>), a byte (\<^verbatim>\<open>%02x\<close>), a string that may be \<^verbatim>\<open>NULL\<close> (\<^verbatim>\<open>%s\<close>),
  the text \<^verbatim>\<open>att_ecode2str\<close> gives for a status, and the text \<^verbatim>\<open>bt_uuid_to_string\<close>
  gives for the UUID that \<^verbatim>\<open>att_get_uuid16\<close> or \<^verbatim>\<open>att_get_uuid128\<close> reads from bytes.
\<close>

datatype arg =
    H "16 word"
  | I int
  | B "8 word"
  | S "string option"
  | Ecode2str "8 word"
  | Uuid16str "8 word list"
  | Uuid128str "8 word list"

datatype printf = Printf string "arg list"

text \<open>The completion callbacks a request can carry.\<close>

datatype callback =
    CB_primary_all
  | CB_primary_by_uuid
  | CB_char
  | CB_char_desc
  | CB_char_read
  | CB_char_read_by_uuid characteristic_data
  | CB_char_write_req
  | CB_exchange_mtu

text \<open>
  The calls into the collaborating libraries, with the arguments as the source passes
  them (integers before the conversion to the parameter's type). The first eight are the
  network requests.
\<close>

datatype call =
    Gatt_connect "string option" "string option" "string option" "string option" int int
  | Gatt_discover_primary "bt_uuid_t option" callback
  | Gatt_discover_char int int "bt_uuid_t option" callback
  | Gatt_find_info int int callback
  | Gatt_read_char int int callback
  | Gatt_read_char_by_uuid int int bt_uuid_t callback
  | Gatt_write_char int "8 word list" "callback option"
  | Gatt_exchange_mtu int callback
  | G_attrib_send "8 word list"
  | G_attrib_set_mtu "16 word"
  | Bt_io_set BtIOSecLevel
  | Bt_io_get
  | G_attrib_new
  | G_attrib_register "8 word"
  | G_attrib_unref
  | G_io_add_watch
  | G_io_channel_shutdown
  | G_main_loop_quit

text \<open>
  The variables of the file. \<open>iochannel\<close> and \<open>attrib\<close> record whether the pointer is
  set; \<open>start\<close> and \<open>end'\<close> are the file's \<^verbatim>\<open>static int start, end\<close>.
\<close>

record gatttool =
  iochannel :: bool
  attrib :: bool
  opt_src :: "string option"
  opt_dst :: "string option"
  opt_dst_type :: "string option"
  opt_sec_level :: "string option"
  opt_psm :: int
  opt_mtu :: int
  conn_handle :: "16 word"
  start :: int
  end' :: int
  conn_state :: state
  stdout :: "printf list"
  calls :: "call list"

text \<open>
  What the collaborators answer. The parsers and decoders are functions of their input;
  the last four fields are the answers of the transport to the calls one event makes:
  whether \<^verbatim>\<open>gatt_connect\<close> returns a channel, the handle or error of \<^verbatim>\<open>bt_io_get\<close>, the
  error of \<^verbatim>\<open>bt_io_set\<close>, and the result of \<^verbatim>\<open>g_attrib_set_mtu\<close>.
\<close>

record env =
  bt_string_to_uuid :: "string \<Rightarrow> bt_uuid_t option"
  gatt_attr_data_from_string :: "string \<Rightarrow> 8 word list"
  g_shell_parse_argv :: "string \<Rightarrow> string list option"
  dec_find_info_resp :: "8 word list \<Rightarrow> (8 word \<times> att_data_list) option"
  dec_read_by_type_resp :: "8 word list \<Rightarrow> att_data_list option"
  dec_read_resp :: "8 word list \<Rightarrow> 8 word list option"
  dec_write_resp :: "8 word list \<Rightarrow> bool"
  dec_exec_write_resp :: "8 word list \<Rightarrow> bool"
  dec_mtu_resp :: "8 word list \<Rightarrow> 16 word option"
  enc_confirmation :: "8 word list"
  gatt_connect_ok :: bool
  bt_io_get_res :: "GError + 16 word"
  bt_io_set_err :: "GError option"
  g_attrib_set_mtu_ok :: bool

definition print :: "string \<Rightarrow> arg list \<Rightarrow> gatttool \<Rightarrow> gatttool" where
  "print fmt args s = s\<lparr>stdout := stdout s @ [Printf fmt args]\<rparr>"

definition invoke :: "call \<Rightarrow> gatttool \<Rightarrow> gatttool" where
  "invoke c s = s\<lparr>calls := calls s @ [c]\<rparr>"

subsection \<open>The connection state\<close>

definition set_state :: "state \<Rightarrow> gatttool \<Rightarrow> gatttool" where
  "set_state st s =
     (let s1 = s\<lparr>conn_state := st\<rparr>
      in if conn_state s1 \<noteq> STATE_CONNECTED then s1\<lparr>conn_handle := 0\<rparr> else s1)"

text \<open>
  \<^verbatim>\<open>connect_cb(io, err, user_data)\<close>; \<open>err\<close> is the error the transport reports, if any.
  A failing \<^verbatim>\<open>bt_io_get\<close> leaves \<^verbatim>\<open>conn_handle\<close> as it was before the source clears it.
\<close>

definition connect_cb :: "env \<Rightarrow> GError option \<Rightarrow> gatttool \<Rightarrow> gatttool" where
  "connect_cb E err s =
     (case err of
        Some e \<Rightarrow>
          (let s1 = set_state STATE_DISCONNECTED s
           in print ''\<newline>CONNECTED(%04x): %s %i %s\<newline>''
                [H (conn_handle s1), S (opt_dst s1), I (code e), S (Some (message e))] s1)
      | None \<Rightarrow>
          (let s1 = invoke G_attrib_new s;
               s2 = s1\<lparr>attrib := True\<rparr>;
               s3 = invoke (G_attrib_register ATT_OP_HANDLE_NOTIFY) s2;
               s4 = invoke (G_attrib_register ATT_OP_HANDLE_IND) s3;
               s5 = invoke Bt_io_get s4
           in case bt_io_get_res E of
                Inl gerr \<Rightarrow>
                  (let s6 = print ''CONNECTED(%04x): %s %i %s\<newline>''
                              [H (conn_handle s5), S (opt_dst s5), I (code gerr),
                               S (Some (message gerr))] s5
                   in s6\<lparr>conn_handle := 0\<rparr>)
              | Inr h \<Rightarrow>
                  (let s6 = s5\<lparr>conn_handle := h\<rparr>;
                       s7 = print ''\<newline>CONNECTED(%04x): %s 0\<newline>''
                              [H (conn_handle s6), S (opt_dst s6)] s6
                   in set_state STATE_CONNECTED s7)))"

definition disconnect_io :: "gatttool \<Rightarrow> gatttool" where
  "disconnect_io s =
     (if conn_state s = STATE_DISCONNECTED then s
      else
        (let s1 = invoke G_attrib_unref s;
             s2 = s1\<lparr>attrib := False\<rparr>;
             s3 = s2\<lparr>opt_mtu := 0\<rparr>;
             s4 = invoke G_io_channel_shutdown s3;
             s5 = s4\<lparr>iochannel := False\<rparr>;
             s6 = print ''\<newline>DISCONNECTED(%04X): %s\<newline>''
                    [H (conn_handle s5), S (opt_dst s5)] s5
         in set_state STATE_DISCONNECTED s6))"

definition channel_watcher :: "gatttool \<Rightarrow> gatttool" where
  "channel_watcher s =
     disconnect_io
       (print ''\<newline>DISCONNECTED(%04x): %s\<newline>'' [H (conn_handle s), S (opt_dst s)] s)"

subsection \<open>The completion callbacks\<close>

text \<open>\<^verbatim>\<open>struct att_range\<close>, \<^verbatim>\<open>struct gatt_primary\<close> and \<^verbatim>\<open>struct gatt_char\<close> of \<^verbatim>\<open>gatt.h\<close>.\<close>

record att_range =
  range_start :: "16 word"
  range_end :: "16 word"

record gatt_primary =
  prim_uuid :: string
  prim_range :: att_range

record gatt_char =
  char_uuid :: string
  char_handle :: "16 word"
  char_properties :: "8 word"
  char_value_handle :: "16 word"

definition primary_all_cb :: "gatt_primary list \<Rightarrow> 8 word \<Rightarrow> gatttool \<Rightarrow> gatttool" where
  "primary_all_cb services status s =
     (if status \<noteq> 0 then
        print ''\<newline>PRIMARY-ALL-END(%04x): %i %s\<newline>''
          [H (conn_handle s), I (uint status), Ecode2str status] s
      else
        (let s1 = print ''\<newline>'' [] s;
             s2 = fold (\<lambda>prim. print ''PRIMARY-ALL(%04x): %04x %04x %s\<newline>''
                    [H (conn_handle s1), H (range_start (prim_range prim)),
                     H (range_end (prim_range prim)), S (Some (prim_uuid prim))]) services s1
         in print ''PRIMARY-ALL-END(%04x): 0\<newline>'' [H (conn_handle s2)] s2))"

definition primary_by_uuid_cb :: "att_range list \<Rightarrow> 8 word \<Rightarrow> gatttool \<Rightarrow> gatttool" where
  "primary_by_uuid_cb ranges status s =
     (if status \<noteq> 0 then
        print ''PRIMARY-UUID-END(%04x): %i %s\<newline>''
          [H (conn_handle s), I (uint status), Ecode2str status] s
      else
        (let s1 = print ''\<newline>'' [] s;
             s2 = fold (\<lambda>range. print ''PRIMARY-UUID(%04x): %04x %04x\<newline>''
                    [H (conn_handle s1), H (range_start range), H (range_end range)]) ranges s1
         in print ''PRIMARY-UUID-END(%04x): 0\<newline>'' [H (conn_handle s2)] s2))"

definition char_cb :: "gatt_char list \<Rightarrow> 8 word \<Rightarrow> gatttool \<Rightarrow> gatttool" where
  "char_cb characteristics status s =
     (if status \<noteq> 0 then
        print ''CHAR-END(%04x): %i %s\<newline>''
          [H (conn_handle s), I (uint status), Ecode2str status] s
      else
        (let s1 = print ''\<newline>'' [] s;
             s2 = fold (\<lambda>chars. print ''CHAR(%04x): %04x %02x %04x %s\<newline>''
                    [H (conn_handle s1), H (char_handle chars), B (char_properties chars),
                     H (char_value_handle chars), S (Some (char_uuid chars))]) characteristics s1
         in print ''CHAR-END(%04x): 0\<newline>'' [H (conn_handle s2), S (opt_dst s2)] s2))"

text \<open>
  The loop of \<^verbatim>\<open>char_desc_cb\<close> over the elements of the decoded list: it carries the
  local \<^verbatim>\<open>handle\<close>, which each element overwrites.
\<close>

fun char_desc_rows ::
  "8 word \<Rightarrow> att_data list \<Rightarrow> 16 word \<times> gatttool \<Rightarrow> 16 word \<times> gatttool" where
  "char_desc_rows format [] (handle, s) = (handle, s)"
| "char_desc_rows format (value # rest) (handle, s) =
     (let handle1 = fst value;
          uuid = (if format = 0x01 then Uuid16str (snd value) else Uuid128str (snd value))
      in char_desc_rows format rest
           (handle1, print ''CHAR-DESC(%04x): %04x %s\<newline>''
                       [H (conn_handle s), H handle1, uuid] s))"

definition char_desc_cb :: "env \<Rightarrow> 8 word \<Rightarrow> 8 word list \<Rightarrow> gatttool \<Rightarrow> gatttool" where
  "char_desc_cb E status pdu s =
     (if status \<noteq> 0 then
        print ''CHAR-DESC-END(%04x): %i %s\<newline>''
          [H (conn_handle s), I (uint status), Ecode2str status] s
      else
        (let (handle, s1) =
               (case dec_find_info_resp E pdu of
                  Some (format, list) \<Rightarrow>
                    char_desc_rows format (data list) (0xffff, print ''\<newline>'' [] s)
                | None \<Rightarrow> (0xffff, s));
             s2 = print ''CHAR-DESC-END(%04x): 0\<newline>'' [H (conn_handle s1)] s1
         in if handle \<noteq> 0xffff \<and> uint handle < end' s2
            then invoke (Gatt_find_info (uint handle + 1) (end' s2) CB_char_desc) s2
            else s2))"

definition char_read_cb :: "env \<Rightarrow> 8 word \<Rightarrow> 8 word list \<Rightarrow> gatttool \<Rightarrow> gatttool" where
  "char_read_cb E status pdu s =
     (if status \<noteq> 0 then
        print ''\<newline>CHAR-VAL-DESC(%04x): %i %s\<newline>''
          [H (conn_handle s), I (uint status), Ecode2str status] s
      else
        (case dec_read_resp E pdu of
           None \<Rightarrow>
             print ''\<newline>CHAR-VAL-DESC(%04x): %i %s\<newline>''
               [H (conn_handle s), I ATT_ECODE_INVALID_PDU,
                Ecode2str (word_of_int ATT_ECODE_INVALID_PDU)] s
         | Some val \<Rightarrow>
             (let s1 = print ''\<newline>CHAR-VAL-DESC(%04x): 0 '' [H (conn_handle s)] s;
                  s2 = fold (\<lambda>b. print ''%02x '' [B b]) val s1
              in print ''\<newline>'' [] s2)))"

text \<open>
  The loop of \<^verbatim>\<open>char_read_by_uuid_cb\<close>: every element moves \<^verbatim>\<open>char_data->start\<close> to one
  past its handle (a \<^verbatim>\<open>uint16_t\<close>, so past \<^verbatim>\<open>0xffff\<close> it wraps to 0) and prints the
  \<^verbatim>\<open>list->len - 2\<close> bytes of its value.
\<close>

fun char_read_by_uuid_rows ::
  "int \<Rightarrow> att_data list \<Rightarrow> characteristic_data \<times> gatttool \<Rightarrow> characteristic_data \<times> gatttool"
  where
  "char_read_by_uuid_rows n [] (char_data, s) = (char_data, s)"
| "char_read_by_uuid_rows n (value # rest) (char_data, s) =
     (let char_data1 = char_data\<lparr>cd_start := fst value + 1\<rparr>;
          s1 = print ''\<newline>CHAR-READ-UUID(%04x): %04x '' [H (conn_handle s), H (fst value)] s;
          s2 = fold (\<lambda>b. print ''%02x '' [B b]) (take (nat (n - 2)) (snd value)) s1;
          s3 = print ''\<newline>'' [] s2
      in char_read_by_uuid_rows n rest (char_data1, s3))"

text \<open>
  \<^verbatim>\<open>char_read_by_uuid_cb\<close>. Every path ends at the label \<^verbatim>\<open>done\<close>, which frees
  \<^verbatim>\<open>char_data\<close>; the first component of the result is \<^verbatim>\<open>char_data\<close> as it is at that
  moment. The callback calls nothing of the GATT library.
\<close>

definition char_read_by_uuid_cb ::
  "env \<Rightarrow> 8 word \<Rightarrow> 8 word list \<Rightarrow> characteristic_data \<Rightarrow> gatttool
     \<Rightarrow> characteristic_data \<times> gatttool" where
  "char_read_by_uuid_cb E status pdu char_data s =
     (if uint status = ATT_ECODE_ATTR_NOT_FOUND \<and> cd_start char_data \<noteq> cd_orig_start char_data
      then (char_data, s)
      else if status \<noteq> 0 then
        (char_data,
         print ''CHAR-READ-UUID-END(%04x): %i %s\<newline>''
           [H (conn_handle s), I (uint status), Ecode2str status] s)
      else
        (case dec_read_by_type_resp E pdu of
           None \<Rightarrow> (char_data, s)
         | Some list \<Rightarrow>
             (let (char_data1, s1) = char_read_by_uuid_rows (len list) (data list) (char_data, s)
              in (char_data1,
                  print ''CHAR-READ-UUID-END(%04x): 0\<newline>'' [H (conn_handle s1)] s1))))"

definition char_write_req_cb :: "env \<Rightarrow> 8 word \<Rightarrow> 8 word list \<Rightarrow> gatttool \<Rightarrow> gatttool" where
  "char_write_req_cb E status pdu s =
     (if status \<noteq> 0 then
        print ''\<newline>CHAR-WRITE-REQ(%04x): %i %s\<newline>''
          [H (conn_handle s), I (uint status), Ecode2str status] s
      else if \<not> dec_write_resp E pdu \<and> \<not> dec_exec_write_resp E pdu then
        print ''\<newline>CHAR-WRITE-REQ(%04x): 1\<newline>'' [H (conn_handle s)] s
      else
        print ''\<newline>CHAR-WRITE-REQ(%04x): 0\<newline>'' [H (conn_handle s)] s)"

text \<open>
  \<^verbatim>\<open>exchange_mtu_cb\<close>: \<^verbatim>\<open>MIN(mtu, opt_mtu)\<close> compares the peer's \<^verbatim>\<open>uint16_t\<close> with the
  \<^verbatim>\<open>int opt_mtu\<close> as integers; the result is stored back into the \<^verbatim>\<open>uint16_t\<close>.
\<close>

definition exchange_mtu_cb :: "env \<Rightarrow> 8 word \<Rightarrow> 8 word list \<Rightarrow> gatttool \<Rightarrow> gatttool" where
  "exchange_mtu_cb E status pdu s =
     (if status \<noteq> 0 then
        print ''\<newline>MTU(%04x): %i %s\<newline>''
          [H (conn_handle s), I (uint status), Ecode2str status] s
      else
        (case dec_mtu_resp E pdu of
           None \<Rightarrow>
             print ''\<newline>MTU(%04x): %i Protocol error\<newline>''
               [H (conn_handle s), I ATT_ECODE_INVALID_PDU] s
         | Some mtu0 \<Rightarrow>
             (let mtu = to_uint16 (min (uint mtu0) (opt_mtu s));
                  s1 = invoke (G_attrib_set_mtu mtu) s
              in if g_attrib_set_mtu_ok E
                 then print ''\<newline>MTU(%04x): 0\<newline>'' [H (conn_handle s1)] s1
                 else print ''\<newline>MTU(%04x): 129 Error exchanging MTU\<newline>''
                        [H (conn_handle s1)] s1)))"

text \<open>
  \<^verbatim>\<open>events_handler(pdu, len, user_data)\<close>, given \<^verbatim>\<open>pdu[0]\<close>, the handle
  \<^verbatim>\<open>att_get_u16(&pdu[1])\<close> and the bytes \<^verbatim>\<open>pdu[3]\<close> to \<^verbatim>\<open>pdu[len - 1]\<close>.
\<close>

definition events_handler ::
  "env \<Rightarrow> 8 word \<Rightarrow> 16 word \<Rightarrow> 8 word list \<Rightarrow> gatttool \<Rightarrow> gatttool" where
  "events_handler E pdu0 handle bytes s =
     (let s1 = print ''\<newline>'' [] s
      in if pdu0 \<noteq> ATT_OP_HANDLE_NOTIFY \<and> pdu0 \<noteq> ATT_OP_HANDLE_IND then
           print ''ERROR(%04x): (16,256) Invalid opcode\<newline>'' [H (conn_handle s1)] s1
         else
           (let s2 = (if pdu0 = ATT_OP_HANDLE_NOTIFY
                      then print ''NOTIFICATION(%04x): %04x '' [H (conn_handle s1), H handle] s1
                      else print ''INDICATION(%04x): %04x '' [H (conn_handle s1), H handle] s1);
                s3 = fold (\<lambda>b. print ''%02x '' [B b]) bytes s2;
                s4 = print ''\<newline>'' [] s3
            in if pdu0 = ATT_OP_HANDLE_NOTIFY then s4
               else if 0 < length (enc_confirmation E)
               then invoke (G_attrib_send (enc_confirmation E)) s4
               else s4))"

subsection \<open>The command handlers\<close>

text \<open>
  A handler receives \<^verbatim>\<open>argvp\<close> as the list of the tokens of the line; \<^verbatim>\<open>argcp\<close> is its
  length. The source reads \<^verbatim>\<open>argvp[i]\<close> only under a test of \<^verbatim>\<open>argcp\<close>, and so does
  the model.
\<close>

definition argcp :: "string list \<Rightarrow> int" where
  "argcp argvp = int (length argvp)"

text \<open>
  \<^verbatim>\<open>strtol\<close>, for a \<^verbatim>\<open>long\<close> of 64 bits: the same scan as \<^verbatim>\<open>strtoll\<close>.
\<close>

definition strtol :: "string \<Rightarrow> nat \<Rightarrow> int \<times> string \<times> bool" where
  "strtol src base = strtoll src base"

definition cmd_exit :: "gatttool \<Rightarrow> gatttool" where
  "cmd_exit s = invoke G_main_loop_quit s"

definition cmd_connect :: "env \<Rightarrow> string list \<Rightarrow> gatttool \<Rightarrow> gatttool" where
  "cmd_connect E argvp s =
     (if conn_state s \<noteq> STATE_DISCONNECTED then s
      else
        (let s1 = (if argcp argvp > 1 then
                     s\<lparr>opt_dst := Some (argvp ! 1),
                       opt_dst_type := (if argcp argvp > 2 then Some (argvp ! 2)
                                        else Some ''public'')\<rparr>
                   else s)
         in if opt_dst s1 = None then
              print ''\<newline>CONNECT(0000): 1 00:00:00:00:00:00 Remote Bluetooth address required\<newline>''
                [] s1
            else
              (let s2 = set_state STATE_CONNECTING s1;
                   s3 = invoke (Gatt_connect (opt_src s2) (opt_dst s2) (opt_dst_type s2)
                                  (opt_sec_level s2) (opt_psm s2) (opt_mtu s2)) s2;
                   s4 = s3\<lparr>iochannel := gatt_connect_ok E\<rparr>
               in if \<not> iochannel s4 then set_state STATE_DISCONNECTED s4
                  else invoke G_io_add_watch s4)))"

definition cmd_disconnect :: "gatttool \<Rightarrow> gatttool" where
  "cmd_disconnect s = disconnect_io s"

definition cmd_primary :: "env \<Rightarrow> string list \<Rightarrow> gatttool \<Rightarrow> gatttool" where
  "cmd_primary E argvp s =
     (if conn_state s \<noteq> STATE_CONNECTED then
        (if argcp argvp \<noteq> 0
         then print ''\<newline>PRIMARY-ALL(0000): 256 Command failed: disconnected\<newline>'' [] s
         else print ''\<newline>PRIMARY-UUID(0000): 256 Command failed: disconnected\<newline>'' [] s)
      else if argcp argvp = 1 then
        invoke (Gatt_discover_primary None CB_primary_all) s
      else
        (case bt_string_to_uuid E (argvp ! 1) of
           None \<Rightarrow> print ''\<newline>PRIMARY-UUID(%04x): 1 Invalid UUID\<newline>'' [H (conn_handle s)] s
         | Some uuid \<Rightarrow> invoke (Gatt_discover_primary (Some uuid) CB_primary_by_uuid) s))"

text \<open>
  \<^verbatim>\<open>cmd_char\<close> has locals \<^verbatim>\<open>start\<close> and \<^verbatim>\<open>end\<close> of its own; they are \<open>start1\<close> and
  \<open>end1\<close> here.
\<close>

definition cmd_char :: "env \<Rightarrow> string list \<Rightarrow> gatttool \<Rightarrow> gatttool" where
  "cmd_char E argvp s =
     (if conn_state s \<noteq> STATE_CONNECTED then
        print ''\<newline>CHAR-DESC-END(0000): 256 disconnected\<newline>'' [] s
      else
        (let start1 = (if argcp argvp > 1 then strtohandle (argvp ! 1) else 0x0001)
         in if argcp argvp > 1 \<and> start1 < 0 then
              print ''\<newline>CHAR-DESC-END(%04x): %i Invalid start handle: %s\<newline>''
                [H (conn_handle s), I ATT_ECODE_INVALID_HANDLE, S (Some (argvp ! 1))] s
            else
              (let end1 = (if argcp argvp > 2 then strtohandle (argvp ! 2) else 0xffff)
               in if argcp argvp > 2 \<and> end1 < 0 then
                    print ''\<newline>CHAR-DESC-END(%04x): %i Invalid end handle: %s\<newline>''
                      [H (conn_handle s), I ATT_ECODE_INVALID_HANDLE, S (Some (argvp ! 2))] s
                  else if argcp argvp > 3 then
                    (case bt_string_to_uuid E (argvp ! 3) of
                       None \<Rightarrow>
                         print ''\<newline>CHAR-DESC-END(%04x): %i Invalid UUID\<newline>''
                           [H (conn_handle s), I ATT_ECODE_UNLIKELY] s
                     | Some uuid \<Rightarrow>
                         invoke (Gatt_discover_char start1 end1 (Some uuid) CB_char) s)
                  else invoke (Gatt_discover_char start1 end1 None CB_char) s)))"

text \<open>\<^verbatim>\<open>cmd_char_desc\<close> writes the variables \<^verbatim>\<open>start\<close> and \<^verbatim>\<open>end\<close> of the file.\<close>

definition cmd_char_desc :: "string list \<Rightarrow> gatttool \<Rightarrow> gatttool" where
  "cmd_char_desc argvp s =
     (if conn_state s \<noteq> STATE_CONNECTED then
        print ''\<newline>CHAR-DESC-END(0000): 256 Command failed: disconnected\<newline>'' [] s
      else
        (let s1 = (if argcp argvp > 1 then s\<lparr>start := strtohandle (argvp ! 1)\<rparr>
                   else s\<lparr>start := 0x0001\<rparr>)
         in if argcp argvp > 1 \<and> start s1 < 0 then
              print ''\<newline>CHAR-DESC-END(%04x): %i Invalid start handle: %s\<newline>''
                [H (conn_handle s1), I ATT_ECODE_INVALID_HANDLE, S (Some (argvp ! 1))] s1
            else
              (let s2 = (if argcp argvp > 2 then s1\<lparr>end' := strtohandle (argvp ! 2)\<rparr>
                         else s1\<lparr>end' := 0xffff\<rparr>)
               in if argcp argvp > 2 \<and> end' s2 < start s2 then
                    print ''\<newline>CHAR-DESC-END(%04x): %i Invalid end handle: %s\<newline>\<newline>''
                      [H (conn_handle s2), I ATT_ECODE_INVALID_HANDLE, S (Some (argvp ! 2))] s2
                  else invoke (Gatt_find_info (start s2) (end' s2) CB_char_desc) s2)))"

definition cmd_read_hnd :: "string list \<Rightarrow> gatttool \<Rightarrow> gatttool" where
  "cmd_read_hnd argvp s =
     (if conn_state s \<noteq> STATE_CONNECTED then
        print ''\<newline>CHAR-READ-HND(0000): 256 Command failed: disconnected\<newline>'' [] s
      else if argcp argvp < 2 then
        print ''\<newline>CHAR-READ-HND(%04x): 1 Missing argument: handle\<newline>'' [H (conn_handle s)] s
      else
        (let handle = strtohandle (argvp ! 1)
         in if handle < 0 then
              print ''\<newline>CHAR-READ-HND(%04x): 1 Invalid handle: %s\<newline>''
                [H (conn_handle s), S (Some (argvp ! 1))] s
            else if argcp argvp > 2 then
              (let (v, e, errno) = strtol (argvp ! 2) 0;
                   offset = to_int v
               in if errno \<or> e \<noteq> [] then
                    print ''\<newline>CHAR-READ-HND(%04x): %i Invalid offset: %s\<newline>''
                      [H (conn_handle s), I ATT_ECODE_INVALID_OFFSET, S (Some (argvp ! 2))] s
                  else invoke (Gatt_read_char handle offset CB_char_read) s)
            else invoke (Gatt_read_char handle 0 CB_char_read) s))"

text \<open>
  \<^verbatim>\<open>cmd_read_uuid\<close>, with its locals \<open>start1\<close> and \<open>end1\<close>. \<^verbatim>\<open>char_data\<close> takes them
  as \<^verbatim>\<open>uint16_t\<close>; the request takes the integers.
\<close>

definition cmd_read_uuid :: "env \<Rightarrow> string list \<Rightarrow> gatttool \<Rightarrow> gatttool" where
  "cmd_read_uuid E argvp s =
     (if conn_state s \<noteq> STATE_CONNECTED then
        print ''\<newline>CHAR-READ-UUID(0000): 256 Command failed: disconnected\<newline>'' [] s
      else if argcp argvp < 2 then
        print ''\<newline>CHAR-READ-UUID(%04x): 1 Missing argument: UUID\<newline>'' [H (conn_handle s)] s
      else
        (case bt_string_to_uuid E (argvp ! 1) of
           None \<Rightarrow> print ''\<newline>CHAR-READ-UUID(%04x): 1 Invalid UUID\<newline>'' [H (conn_handle s)] s
         | Some uuid \<Rightarrow>
             (let start1 = (if argcp argvp > 2 then strtohandle (argvp ! 2) else 0x0001)
              in if argcp argvp > 2 \<and> start1 < 0 then
                   print ''\<newline>CHAR-READ-UUID(%04x): %i Invalid start handle: %s\<newline>''
                     [H (conn_handle s), I ATT_ECODE_INVALID_HANDLE, S (Some (argvp ! 1))] s
                 else
                   (let end1 = (if argcp argvp > 3 then strtohandle (argvp ! 3) else 0xffff)
                    in if argcp argvp > 3 \<and> end1 < start1 then
                         print ''\<newline>CHAR-READ-UUID(%04x): %i Invalid end handle: %s\<newline>''
                           [H (conn_handle s), I ATT_ECODE_INVALID_HANDLE, S (Some (argvp ! 2))] s
                       else
                         (let char_data = \<lparr>cd_orig_start = to_uint16 start1,
                                           cd_start = to_uint16 start1,
                                           cd_end = to_uint16 end1,
                                           cd_uuid = uuid\<rparr>
                          in invoke (Gatt_read_char_by_uuid start1 end1 (cd_uuid char_data)
                                       (CB_char_read_by_uuid char_data)) s)))))"

text \<open>The tag \<^verbatim>\<open>cmd_char_write\<close> prints before an error, by \<^verbatim>\<open>mode\<close>.\<close>

definition write_tag :: "bool \<Rightarrow> gatttool \<Rightarrow> gatttool" where
  "write_tag mode s =
     (if mode then print ''\<newline>CHAR-WRITE-REQ'' [] s else print ''\<newline>CHAR-WRITE-CMD'' [] s)"

definition cmd_char_write :: "env \<Rightarrow> string list \<Rightarrow> gatttool \<Rightarrow> gatttool" where
  "cmd_char_write E argvp s =
     (if argcp argvp < 3 then
        print ''\<newline>CHAR-WRITE-(%04x): 257 Usage: %s <handle> <new value>\<newline>''
          [H (conn_handle s), S (Some (argvp ! 0))] s
      else
        (let mode = g_strcmp0_eq ''char-write-req'' (argvp ! 0)
         in if conn_state s \<noteq> STATE_CONNECTED then
              print ''(000): 256 Command failed: disconnected\<newline>'' [] (write_tag mode s)
            else
              (let handle = strtohandle (argvp ! 1)
               in if handle \<le> 0 then
                    (let s1 = write_tag mode s
                     in print ''(%04x): %i A valid handle is required\<newline>''
                          [H (conn_handle s1), I ATT_ECODE_INVALID_HANDLE] s1)
                  else
                    (let val = gatt_attr_data_from_string E (argvp ! 2)
                     in if length val = 0 then
                          (let s1 = write_tag mode s
                           in print ''(%04x): %i invalid value\<newline>''
                                [H (conn_handle s1), I ATT_ECODE_INVALID_HANDLE] s1)
                        else if g_strcmp0_eq ''char-write-req'' (argvp ! 0) then
                          invoke (Gatt_write_char handle val (Some CB_char_write_req)) s
                        else
                          (let s1 = invoke (Gatt_write_char handle val None) s
                           in print ''\<newline>CHAR-WRITE-CMD(%04x): 0\<newline>''
                                [H (conn_handle s1)] s1)))))"

text \<open>
  The level \<^verbatim>\<open>cmd_sec_level\<close> reads from its argument, \<open>None\<close> for a string that is none
  of the three.
\<close>

definition sec_level_of :: "string \<Rightarrow> BtIOSecLevel option" where
  "sec_level_of a =
     (if strcasecmp_eq a ''medium'' then Some BT_IO_SEC_MEDIUM
      else if strcasecmp_eq a ''high'' then Some BT_IO_SEC_HIGH
      else if strcasecmp_eq a ''low'' then Some BT_IO_SEC_LOW
      else None)"

text \<open>
  \<^verbatim>\<open>cmd_sec_level\<close>. The branch for a PSM outside the disconnected state prints its line
  and, having no \<^verbatim>\<open>return\<close>, goes on to the test of \<^verbatim>\<open>iochannel\<close>.
\<close>

definition cmd_sec_level :: "env \<Rightarrow> string list \<Rightarrow> gatttool \<Rightarrow> gatttool" where
  "cmd_sec_level E argvp s =
     (if argcp argvp < 2 then
        print ''\<newline>SEC-LEVEL(%04x): 0 %s\<newline>'' [H (conn_handle s), S (opt_sec_level s)] s
      else
        (case sec_level_of (argvp ! 1) of
           None \<Rightarrow>
             print ''\<newline>SEC-LEVEL(%04x): 257 Allowed values: low | medium | high\<newline>''
               [H (conn_handle s)] s
         | Some sec_level \<Rightarrow>
             (let s1 = s\<lparr>opt_sec_level := Some (argvp ! 1)\<rparr>
              in if opt_psm s1 = 0 \<and> conn_state s1 \<noteq> STATE_CONNECTED then
                   print ''\<newline>SEC-LEVEL(0000): 256 It can only be done when connected for LE connections\<newline>''
                     [] s1
                 else
                   (let s2 = (if opt_psm s1 \<noteq> 0 \<and> conn_state s1 \<noteq> STATE_DISCONNECTED then
                                print ''\<newline>SEC-LEVEL(%04x): 256 It must be disconnected to this change take effect\<newline>''
                                  [H (conn_handle s1)] s1
                              else s1);
                        s3 = (if iochannel s2 then invoke (Bt_io_set sec_level) s2 else s2)
                    in case (if iochannel s2 then bt_io_set_err E else None) of
                         Some gerr \<Rightarrow>
                           print ''\<newline>SEC-LEVEL(%04x): %i %s\<newline>''
                             [H (conn_handle s3), I (code gerr), S (Some (message gerr))] s3
                       | None \<Rightarrow>
                           print ''\<newline>SEC-LEVEL(%04x): 0 %s\<newline>''
                             [H (conn_handle s3), S (opt_sec_level s3)] s3))))"

text \<open>
  \<^verbatim>\<open>cmd_mtu\<close>: \<^verbatim>\<open>opt_mtu = strtoll(argvp[1], NULL, 0)\<close> is stored, narrowed to an
  \<^verbatim>\<open>int\<close>, before the value is tested.
\<close>

definition cmd_mtu :: "string list \<Rightarrow> gatttool \<Rightarrow> gatttool" where
  "cmd_mtu argvp s =
     (if conn_state s \<noteq> STATE_CONNECTED then
        print ''\<newline>MTU(0000): 256 Command failed: not connected.\<newline>'' [] s
      else if opt_psm s \<noteq> 0 then
        print ''\<newline>MTU(%04x): 256 Command failed: operation is only available for LE transport.\<newline>''
          [H (conn_handle s)] s
      else if argcp argvp < 2 then
        print ''\<newline>MTU(%04x): 257 Usage: mtu <value>\<newline>'' [H (conn_handle s)] s
      else if opt_mtu s \<noteq> 0 then
        print ''\<newline>MTU(%04x): %i Command failed: MTU exchange can only occur once per connection.\<newline>''
          [H (conn_handle s), I ATT_ECODE_UNLIKELY] s
      else
        (let (v, e, errno) = strtoll (argvp ! 1) 0;
             s1 = s\<lparr>opt_mtu := to_int v\<rparr>
         in if errno \<or> opt_mtu s1 < ATT_DEFAULT_LE_MTU then
              print ''\<newline>MTU(%04x): %i Invalid value. Minimum MTU size is %d\<newline>''
                [H (conn_handle s1), I ATT_ECODE_UNLIKELY, I ATT_DEFAULT_LE_MTU] s1
            else invoke (Gatt_exchange_mtu (opt_mtu s1) CB_exchange_mtu) s1))"

definition cmd_psm :: "string list \<Rightarrow> gatttool \<Rightarrow> gatttool" where
  "cmd_psm argvp s =
     (if conn_state s = STATE_CONNECTED then
        print ''\<newline>PSM(%04x): 256 Command failed: connected.\<newline>'' [H (conn_handle s)] s
      else if argcp argvp < 2 then
        print ''\<newline>PSM(0000): 257 Usage: psm <value>\<newline>'' [] s
      else
        (let (v, e, errno) = strtoll (argvp ! 1) 0;
             s1 = s\<lparr>opt_psm := to_int v\<rparr>
         in print ''\<newline>PSM(0000): %i\<newline>'' [I (opt_psm s1)] s1))"

subsection \<open>The command table and the dispatcher\<close>

text \<open>
  The table \<^verbatim>\<open>commands\<close>: the name, the handler, the parameters and the description of
  every command, in the order of the source. The function pointer of an entry is a value
  of \<open>handler\<close>, which \<open>func\<close> turns into the call.
\<close>

datatype handler =
    Cmd_help | Cmd_exit | Cmd_connect | Cmd_disconnect | Cmd_primary | Cmd_char
  | Cmd_char_desc | Cmd_read_hnd | Cmd_read_uuid | Cmd_char_write | Cmd_sec_level
  | Cmd_mtu | Cmd_psm

definition commands :: "(string \<times> handler \<times> string \<times> string) list" where
  "commands =
     [(''help'', Cmd_help, [], ''Show this help''),
      (''exit'', Cmd_exit, [], ''Exit interactive mode''),
      (''quit'', Cmd_exit, [], ''Exit interactive mode''),
      (''connect'', Cmd_connect, ''[address [address type]]'', ''Connect to a remote device''),
      (''disconnect'', Cmd_disconnect, [], ''Disconnect from a remote device''),
      (''primary'', Cmd_primary, ''[UUID]'', ''Primary Service Discovery''),
      (''characteristics'', Cmd_char, ''[start hnd [end hnd [UUID]]]'',
         ''Characteristics Discovery''),
      (''char-desc'', Cmd_char_desc, ''[start hnd] [end hnd]'',
         ''Characteristics Descriptor Discovery''),
      (''char-read-hnd'', Cmd_read_hnd, ''<handle> [offset]'',
         ''Characteristics Value/Descriptor Read by handle''),
      (''char-read-uuid'', Cmd_read_uuid, ''<UUID> [start hnd] [end hnd]'',
         ''Characteristics Value/Descriptor Read by UUID''),
      (''char-write-req'', Cmd_char_write, ''<handle> <new value>'',
         ''Characteristic Value Write (Write Request)''),
      (''char-write-cmd'', Cmd_char_write, ''<handle> <new value>'',
         ''Characteristic Value Write (No response)''),
      (''sec-level'', Cmd_sec_level, ''[low | medium | high]'',
         ''Set security level. Default: low''),
      (''mtu'', Cmd_mtu, ''<value>'', ''Exchange MTU for GATT/ATT''),
      (''psm'', Cmd_psm, ''<value>'', ''Set PSM for GATT/ATT over BR'')]"

definition cmd_help :: "gatttool \<Rightarrow> gatttool" where
  "cmd_help s =
     fold (\<lambda>(cmd, f, params, desc).
             print ''%-15s %-30s %s\<newline>'' [S (Some cmd), S (Some params), S (Some desc)])
       commands s"

fun func :: "handler \<Rightarrow> env \<Rightarrow> string list \<Rightarrow> gatttool \<Rightarrow> gatttool" where
  "func Cmd_help E argvp s = cmd_help s"
| "func Cmd_exit E argvp s = cmd_exit s"
| "func Cmd_connect E argvp s = cmd_connect E argvp s"
| "func Cmd_disconnect E argvp s = cmd_disconnect s"
| "func Cmd_primary E argvp s = cmd_primary E argvp s"
| "func Cmd_char E argvp s = cmd_char E argvp s"
| "func Cmd_char_desc E argvp s = cmd_char_desc argvp s"
| "func Cmd_read_hnd E argvp s = cmd_read_hnd argvp s"
| "func Cmd_read_uuid E argvp s = cmd_read_uuid E argvp s"
| "func Cmd_char_write E argvp s = cmd_char_write E argvp s"
| "func Cmd_sec_level E argvp s = cmd_sec_level E argvp s"
| "func Cmd_mtu E argvp s = cmd_mtu argvp s"
| "func Cmd_psm E argvp s = cmd_psm argvp s"

text \<open>\<^verbatim>\<open>g_strstrip\<close>: the line without its leading and trailing white space.\<close>

definition g_strstrip :: "string \<Rightarrow> string" where
  "g_strstrip l = rev (dropWhile isspace (rev (dropWhile isspace l)))"

text \<open>
  What stops the process instead of returning to the event loop. \<^verbatim>\<open>parse_line\<close> ignores
  the result of \<^verbatim>\<open>g_shell_parse_argv\<close>, which on a line it cannot split into tokens
  returns \<^verbatim>\<open>FALSE\<close> and stores nothing into \<^verbatim>\<open>argcp\<close> and \<^verbatim>\<open>argvp\<close>; the loop over the
  table then reads \<^verbatim>\<open>argvp[0]\<close> through the uninitialised local pointer.
\<close>

datatype fault = Uninitialised_argvp

text \<open>
  \<^verbatim>\<open>parse_line(line_read)\<close>; \<open>None\<close> is the \<^verbatim>\<open>NULL\<close> line of an end of input. The field
  \<open>g_shell_parse_argv\<close> of the environment gives the tokens of a line it can split (the
  vector has at least one element then), and \<open>None\<close> where it fails.
\<close>

definition parse_line :: "env \<Rightarrow> string option \<Rightarrow> gatttool \<Rightarrow> fault + gatttool" where
  "parse_line E line_read s =
     (case line_read of
        None \<Rightarrow> Inr (cmd_exit (print ''\<newline>'' [] s))
      | Some l \<Rightarrow>
          (let line = g_strstrip l
           in if line = [] then Inr s
              else
                (case g_shell_parse_argv E line of
                   None \<Rightarrow> Inl Uninitialised_argvp
                 | Some argvp \<Rightarrow>
                     (case find (\<lambda>(cmd, f, params, desc). strcasecmp_eq cmd (argvp ! 0))
                             commands of
                        Some (cmd, f, params, desc) \<Rightarrow> Inr (func f E argvp s)
                      | None \<Rightarrow>
                          Inr (print ''\<newline>ERROR(15,256): %s: command not found\<newline>''
                                 [S (Some (argvp ! 0))] s)))))"

subsection \<open>The event loop\<close>

text \<open>
  What the main loop hands to the program: an input line, the completion of the
  connection attempt, a hang-up of the channel, a notification or indication, and the
  completion of a request with the data of its callback.
\<close>

datatype event =
    Ev_line "string option"
  | Ev_connect_cb "GError option"
  | Ev_channel_watcher
  | Ev_events_handler "8 word" "16 word" "8 word list"
  | Ev_primary_all_cb "gatt_primary list" "8 word"
  | Ev_primary_by_uuid_cb "att_range list" "8 word"
  | Ev_char_cb "gatt_char list" "8 word"
  | Ev_char_desc_cb "8 word" "8 word list"
  | Ev_char_read_cb "8 word" "8 word list"
  | Ev_char_read_by_uuid_cb "8 word" "8 word list" characteristic_data
  | Ev_char_write_req_cb "8 word" "8 word list"
  | Ev_exchange_mtu_cb "8 word" "8 word list"

fun step :: "env \<Rightarrow> event \<Rightarrow> gatttool \<Rightarrow> fault + gatttool" where
  "step E (Ev_line line_read) s = parse_line E line_read s"
| "step E (Ev_connect_cb err) s = Inr (connect_cb E err s)"
| "step E Ev_channel_watcher s = Inr (channel_watcher s)"
| "step E (Ev_events_handler pdu0 handle bytes) s = Inr (events_handler E pdu0 handle bytes s)"
| "step E (Ev_primary_all_cb services status) s = Inr (primary_all_cb services status s)"
| "step E (Ev_primary_by_uuid_cb ranges status) s = Inr (primary_by_uuid_cb ranges status s)"
| "step E (Ev_char_cb characteristics status) s = Inr (char_cb characteristics status s)"
| "step E (Ev_char_desc_cb status pdu) s = Inr (char_desc_cb E status pdu s)"
| "step E (Ev_char_read_cb status pdu) s = Inr (char_read_cb E status pdu s)"
| "step E (Ev_char_read_by_uuid_cb status pdu char_data) s =
     Inr (snd (char_read_by_uuid_cb E status pdu char_data s))"
| "step E (Ev_char_write_req_cb status pdu) s = Inr (char_write_req_cb E status pdu s)"
| "step E (Ev_exchange_mtu_cb status pdu) s = Inr (exchange_mtu_cb E status pdu s)"

text \<open>
  A run of the loop over a list of events, each with the answers of the collaborators
  during it. A fault ends the run. The run does not stop at \<^verbatim>\<open>exit\<close>, after which the
  real loop handles no further event: every state of the real loop is a state of a run.
\<close>

fun run :: "(env \<times> event) list \<Rightarrow> gatttool \<Rightarrow> fault + gatttool" where
  "run [] s = Inr s"
| "run ((E, ev) # evs) s =
     (case step E ev s of
        Inl f \<Rightarrow> Inl f
      | Inr s1 \<Rightarrow> run evs s1)"

text \<open>
  The variables as \<^verbatim>\<open>interactive(src, dst, dst_type, psm)\<close> sets them before the loop
  runs; the others have the zero of a static variable.
\<close>

definition interactive_init ::
  "string option \<Rightarrow> string option \<Rightarrow> string option \<Rightarrow> int \<Rightarrow> gatttool" where
  "interactive_init src dst dst_type psm =
     \<lparr>iochannel = False, attrib = False,
      opt_src = src, opt_dst = dst, opt_dst_type = dst_type, opt_sec_level = Some ''low'',
      opt_psm = psm, opt_mtu = 0, conn_handle = 0, start = 0, end' = 0,
      conn_state = STATE_DISCONNECTED, stdout = [], calls = []\<rparr>"

subsection \<open>A test double of the collaborators\<close>

text \<open>
  The concrete runs below need concrete collaborators. The double splits a line at white
  space and fails on a line with an odd number of double quotes, reads a UUID of four
  hexadecimal digits, reads a value as pairs of hexadecimal digits, and decodes the
  responses of the attribute protocol with 16-bit UUIDs: a find-information response
  \<^verbatim>\<open>05 01\<close> followed by elements of a handle and a UUID, a read-by-type response
  \<^verbatim>\<open>09 03\<close> followed by elements of a handle and one byte, a read response \<^verbatim>\<open>0b\<close>, a
  write response \<^verbatim>\<open>13\<close>, an execute-write response \<^verbatim>\<open>19\<close> and an MTU response
  \<^verbatim>\<open>03\<close>. Its transport connects, assigns the handle \<^verbatim>\<open>0x0040\<close> and accepts every
  setting.
\<close>

fun tokens :: "string \<Rightarrow> string \<Rightarrow> string list" where
  "tokens w [] = (if w = [] then [] else [w])"
| "tokens w (c # cs) =
     (if isspace c then (if w = [] then tokens [] cs else w # tokens [] cs)
      else tokens (w @ [c]) cs)"

definition double_parse_argv :: "string \<Rightarrow> string list option" where
  "double_parse_argv line =
     (if odd (length (filter (\<lambda>c. c = CHR 0x22) line)) \<or> tokens [] line = [] then None
      else Some (tokens [] line))"

definition double_string_to_uuid :: "string \<Rightarrow> bt_uuid_t option" where
  "double_string_to_uuid str =
     (let (v, e, errno) = strtoll str 16
      in if length str = 4 \<and> e = [] \<and> 0 \<le> v then Some (BT_UUID16 (word_of_int v)) else None)"

fun double_data_from_string :: "string \<Rightarrow> 8 word list" where
  "double_data_from_string (a # b # rest) =
     (case (digit_val a, digit_val b) of
        (Some x, Some y) \<Rightarrow>
          (if x < 16 \<and> y < 16 then word_of_nat (16 * x + y) # double_data_from_string rest
           else [])
      | _ \<Rightarrow> [])"
| "double_data_from_string _ = []"

definition le16 :: "8 word \<Rightarrow> 8 word \<Rightarrow> 16 word" where
  "le16 lo hi = word_of_nat (unat lo + 256 * unat hi)"

fun find_info_elems :: "8 word list \<Rightarrow> att_data list" where
  "find_info_elems (h0 # h1 # u0 # u1 # rest) = (le16 h0 h1, [u0, u1]) # find_info_elems rest"
| "find_info_elems _ = []"

fun read_by_type_elems :: "8 word list \<Rightarrow> att_data list" where
  "read_by_type_elems (h0 # h1 # v # rest) = (le16 h0 h1, [v]) # read_by_type_elems rest"
| "read_by_type_elems _ = []"

definition double_find_info_resp :: "8 word list \<Rightarrow> (8 word \<times> att_data_list) option" where
  "double_find_info_resp pdu =
     (case pdu of
        op # format # body \<Rightarrow>
          (if op = 0x05 \<and> format = 0x01 \<and> find_info_elems body \<noteq> []
           then Some (format, \<lparr>len = 4, data = find_info_elems body\<rparr>) else None)
      | _ \<Rightarrow> None)"

definition double_read_by_type_resp :: "8 word list \<Rightarrow> att_data_list option" where
  "double_read_by_type_resp pdu =
     (case pdu of
        op # elen # body \<Rightarrow>
          (if op = 0x09 \<and> elen = 0x03 \<and> read_by_type_elems body \<noteq> []
           then Some \<lparr>len = 3, data = read_by_type_elems body\<rparr> else None)
      | _ \<Rightarrow> None)"

definition double_read_resp :: "8 word list \<Rightarrow> 8 word list option" where
  "double_read_resp pdu = (case pdu of op # val \<Rightarrow> if op = 0x0B then Some val else None | _ \<Rightarrow> None)"

definition double_mtu_resp :: "8 word list \<Rightarrow> 16 word option" where
  "double_mtu_resp pdu = (case pdu of [op, lo, hi] \<Rightarrow> if op = 0x03 then Some (le16 lo hi) else None | _ \<Rightarrow> None)"

definition double :: env where
  "double =
     \<lparr>bt_string_to_uuid = double_string_to_uuid,
      gatt_attr_data_from_string = double_data_from_string,
      g_shell_parse_argv = double_parse_argv,
      dec_find_info_resp = double_find_info_resp,
      dec_read_by_type_resp = double_read_by_type_resp,
      dec_read_resp = double_read_resp,
      dec_write_resp = (\<lambda>pdu. pdu = [0x13]),
      dec_exec_write_resp = (\<lambda>pdu. pdu = [0x19]),
      dec_mtu_resp = double_mtu_resp,
      enc_confirmation = [0x1E],
      gatt_connect_ok = True,
      bt_io_get_res = Inr 0x0040,
      bt_io_set_err = None,
      g_attrib_set_mtu_ok = True\<rparr>"

text \<open>
  The session started for the device \<^verbatim>\<open>00:11:22:33:44:55\<close> over LE, and the same
  session once \<^verbatim>\<open>connect\<close> has completed against the double.
\<close>

definition session0 :: gatttool where
  "session0 = interactive_init None (Some ''00:11:22:33:44:55'') (Some ''public'') 0"

definition connected0 :: gatttool where
  "connected0 = connect_cb double None (cmd_connect double [''connect''] session0)"

text \<open>The same over BR/EDR: the session started with the PSM 31, once connected.\<close>

definition br_connected0 :: gatttool where
  "br_connected0 =
     connect_cb double None
       (cmd_connect double [''connect'']
          (interactive_init None (Some ''00:11:22:33:44:55'') (Some ''public'') 31))"

subsection \<open>Properties of runs\<close>

text \<open>
  A run stays on one connection when every state it passes, the first and the last
  included, is \<open>STATE_CONNECTED\<close> and no event ends in a fault.
\<close>

fun stays_connected :: "(env \<times> event) list \<Rightarrow> gatttool \<Rightarrow> bool" where
  "stays_connected [] s = (conn_state s = STATE_CONNECTED)"
| "stays_connected ((E, ev) # evs) s =
     (conn_state s = STATE_CONNECTED \<and>
      (case step E ev s of
         Inl f \<Rightarrow> False
       | Inr s1 \<Rightarrow> stays_connected evs s1))"

text \<open>
  The transport behaves along a run when it completes a connection attempt only while
  one is pending (the state is \<open>STATE_CONNECTING\<close>) and never assigns the handle 0.
\<close>

fun transport_ok :: "(env \<times> event) list \<Rightarrow> gatttool \<Rightarrow> bool" where
  "transport_ok [] s = True"
| "transport_ok ((E, ev) # evs) s =
     ((case ev of
         Ev_connect_cb err \<Rightarrow> conn_state s = STATE_CONNECTING \<and> bt_io_get_res E \<noteq> Inr 0
       | _ \<Rightarrow> True) \<and>
      (case step E ev s of
         Inl f \<Rightarrow> True
       | Inr s1 \<Rightarrow> transport_ok evs s1))"

text \<open>
  The variables a connection owns: the state, the handle, and the PSM and MTU of the
  configuration.
\<close>

definition conn_vars :: "gatttool \<Rightarrow> state \<times> 16 word \<times> int \<times> int" where
  "conn_vars s = (conn_state s, conn_handle s, opt_psm s, opt_mtu s)"


section \<open>Theorems\<close>

subsection \<open>Printing and calling change one field\<close>

lemma print_fields [simp]:
  "conn_state (print fmt args s) = conn_state s"
  "conn_handle (print fmt args s) = conn_handle s"
  "opt_psm (print fmt args s) = opt_psm s"
  "opt_mtu (print fmt args s) = opt_mtu s"
  "calls (print fmt args s) = calls s"
  "iochannel (print fmt args s) = iochannel s"
  "opt_sec_level (print fmt args s) = opt_sec_level s"
  "end' (print fmt args s) = end' s"
  "stdout (print fmt args s) = stdout s @ [Printf fmt args]"
  by (simp_all add: print_def)

lemma invoke_fields [simp]:
  "conn_state (invoke c s) = conn_state s"
  "conn_handle (invoke c s) = conn_handle s"
  "opt_psm (invoke c s) = opt_psm s"
  "opt_mtu (invoke c s) = opt_mtu s"
  "calls (invoke c s) = calls s @ [c]"
  "iochannel (invoke c s) = iochannel s"
  "opt_sec_level (invoke c s) = opt_sec_level s"
  "end' (invoke c s) = end' s"
  "stdout (invoke c s) = stdout s"
  by (simp_all add: invoke_def)

lemma fold_print:
  "fold (\<lambda>x. print fmt (args x)) xs s =
     s\<lparr>stdout := stdout s @ map (\<lambda>x. Printf fmt (args x)) xs\<rparr>"
  by (induction xs arbitrary: s) (simp_all add: print_def)

lemma char_desc_rows_eq:
  "char_desc_rows format xs (h, s) =
     (if xs = [] then h else fst (last xs),
      s\<lparr>stdout := stdout s @
          map (\<lambda>v. Printf ''CHAR-DESC(%04x): %04x %s\<newline>''
                     [H (conn_handle s), H (fst v),
                      if format = 0x01 then Uuid16str (snd v) else Uuid128str (snd v)]) xs\<rparr>)"
  by (induction xs arbitrary: h s) (simp_all add: print_def Let_def)

lemma char_read_by_uuid_rows_fields:
  "conn_state (snd (char_read_by_uuid_rows n xs (cd, s))) = conn_state s \<and>
   conn_handle (snd (char_read_by_uuid_rows n xs (cd, s))) = conn_handle s \<and>
   opt_psm (snd (char_read_by_uuid_rows n xs (cd, s))) = opt_psm s \<and>
   opt_mtu (snd (char_read_by_uuid_rows n xs (cd, s))) = opt_mtu s \<and>
   calls (snd (char_read_by_uuid_rows n xs (cd, s))) = calls s \<and>
   cd_start (fst (char_read_by_uuid_rows n xs (cd, s))) =
     (if xs = [] then cd_start cd else fst (last xs) + 1)"
  by (induction xs arbitrary: cd s) (simp_all add: Let_def fold_print)

subsection \<open>Concrete values\<close>

lemmas strto_defs =
  strtohandle_def strtoll_def scan_base_def is_hex_prefix_def digit_val_def isspace_def
  to_int_def EINVAL_def LLONG_MAX_def LLONG_MIN_def

lemmas double_defs =
  double_def double_parse_argv_def double_string_to_uuid_def double_find_info_resp_def
  double_read_by_type_resp_def double_read_resp_def double_mtu_resp_def le16_def

lemmas dispatch_defs =
  parse_line_def g_strstrip_def commands_def strcasecmp_eq_def tolower_def

lemma connected0_eq:
  "connected0 =
     \<lparr>iochannel = True, attrib = True, opt_src = None, opt_dst = Some ''00:11:22:33:44:55'',
      opt_dst_type = Some ''public'', opt_sec_level = Some ''low'', opt_psm = 0, opt_mtu = 0,
      conn_handle = 0x40, start = 0, end' = 0, conn_state = STATE_CONNECTED,
      stdout = [Printf ''\<newline>CONNECTED(%04x): %s 0\<newline>''
                  [H 0x40, S (Some ''00:11:22:33:44:55'')]],
      calls = [Gatt_connect None (Some ''00:11:22:33:44:55'') (Some ''public'') (Some ''low'') 0 0,
               G_io_add_watch, G_attrib_new, G_attrib_register ATT_OP_HANDLE_NOTIFY,
               G_attrib_register ATT_OP_HANDLE_IND, Bt_io_get]\<rparr>"
  by (simp add: connected0_def session0_def interactive_init_def cmd_connect_def
      connect_cb_def double_def set_state_def print_def invoke_def argcp_def Let_def)

lemma strtohandle_0010: "strtohandle ''0010'' = 16"
  by (simp add: strtohandle_def strtoll_def scan_base_def is_hex_prefix_def digit_val_def
      isspace_def to_int_def EINVAL_def LLONG_MAX_def LLONG_MIN_def)

subsection \<open>The dispatcher on a line it cannot split\<close>

text \<open>
  C7. The claim: a line whose tokenization fails makes the dispatcher report a parse
  error and go on with the next lines. The code: on such a line (not empty once
  stripped) \<open>parse_line\<close> prints nothing and reads the uninitialised \<^verbatim>\<open>argvp\<close>; the
  run ends in that fault, whatever lines follow.
\<close>

theorem parse_line_tokenization_fault:
  assumes "g_strstrip l \<noteq> []" and "g_shell_parse_argv E (g_strstrip l) = None"
  shows "parse_line E (Some l) s = Inl Uninitialised_argvp \<and>
         run ((E, Ev_line (Some l)) # evs) s = Inl Uninitialised_argvp"
  using assms by (simp add: parse_line_def)

theorem parse_line_tokenization_fault_witness:
  "g_strstrip (''connect '' @ [CHR 0x22] @ ''aa'') \<noteq> [] \<and>
   g_shell_parse_argv double (g_strstrip (''connect '' @ [CHR 0x22] @ ''aa'')) = None \<and>
   parse_line double (Some (''connect '' @ [CHR 0x22] @ ''aa'')) connected0
     = Inl Uninitialised_argvp \<and>
   run [(double, Ev_line (Some (''connect '' @ [CHR 0x22] @ ''aa''))),
        (double, Ev_line (Some ''help''))] connected0
     = Inl Uninitialised_argvp"
proof -
  have a: "g_strstrip (''connect '' @ [CHR 0x22] @ ''aa'') \<noteq> []"
    by (simp add: g_strstrip_def isspace_def)
  have b: "g_shell_parse_argv double (g_strstrip (''connect '' @ [CHR 0x22] @ ''aa'')) = None"
    by (simp add: g_strstrip_def isspace_def double_def double_parse_argv_def)
  from parse_line_tokenization_fault
         [OF a b, of connected0 "[(double, Ev_line (Some ''help''))]"] a b
  show ?thesis by simp
qed

subsection \<open>Commands in the wrong connection state\<close>

lemma session0_eq:
  "session0 =
     \<lparr>iochannel = False, attrib = False, opt_src = None, opt_dst = Some ''00:11:22:33:44:55'',
      opt_dst_type = Some ''public'', opt_sec_level = Some ''low'', opt_psm = 0, opt_mtu = 0,
      conn_handle = 0, start = 0, end' = 0, conn_state = STATE_DISCONNECTED,
      stdout = [], calls = []\<rparr>"
  by (simp add: session0_def interactive_init_def)

text \<open>
  C4, as the claim states it, fails for \<^verbatim>\<open>connect\<close>: typed while connected, the line goes
  through the dispatcher to \<open>cmd_connect\<close>, which returns at once. The state is the one
  before; no line has been printed.
\<close>

theorem connect_while_connected_counterexample:
  "parse_line double (Some ''connect'') connected0 = Inr connected0 \<and>
   conn_state connected0 \<noteq> STATE_DISCONNECTED \<and>
   \<not> (\<exists>line. stdout (cmd_connect double [''connect''] connected0) = stdout connected0 @ [line])"
  by (simp add: dispatch_defs isspace_def double_def double_parse_argv_def cmd_connect_def
      connected0_eq)

text \<open>
  C4, amended. Outside \<open>STATE_CONNECTED\<close> each of \<^verbatim>\<open>primary\<close>, \<^verbatim>\<open>characteristics\<close>,
  \<^verbatim>\<open>char-desc\<close>, \<^verbatim>\<open>char-read-hnd\<close>, \<^verbatim>\<open>char-read-uuid\<close> and \<^verbatim>\<open>mtu\<close> prints its fixed
  line and does nothing else: the result is the state before with that one line added, so
  no call to a collaborator is made. The two write commands do the same once both their
  arguments are there (the test of the number of arguments comes first), and \<^verbatim>\<open>psm\<close>
  does it in \<open>STATE_CONNECTED\<close>. \<^verbatim>\<open>connect\<close> outside \<open>STATE_DISCONNECTED\<close> is not
  attempted and not reported: the state is unchanged.
\<close>

theorem state_error_lines:
  "(conn_state s \<noteq> STATE_CONNECTED \<and> argvp \<noteq> [] \<longrightarrow>
      cmd_primary E argvp s =
        print ''\<newline>PRIMARY-ALL(0000): 256 Command failed: disconnected\<newline>'' [] s) \<and>
   (conn_state s \<noteq> STATE_CONNECTED \<longrightarrow>
      cmd_char E argvp s = print ''\<newline>CHAR-DESC-END(0000): 256 disconnected\<newline>'' [] s) \<and>
   (conn_state s \<noteq> STATE_CONNECTED \<longrightarrow>
      cmd_char_desc argvp s =
        print ''\<newline>CHAR-DESC-END(0000): 256 Command failed: disconnected\<newline>'' [] s) \<and>
   (conn_state s \<noteq> STATE_CONNECTED \<longrightarrow>
      cmd_read_hnd argvp s =
        print ''\<newline>CHAR-READ-HND(0000): 256 Command failed: disconnected\<newline>'' [] s) \<and>
   (conn_state s \<noteq> STATE_CONNECTED \<longrightarrow>
      cmd_read_uuid E argvp s =
        print ''\<newline>CHAR-READ-UUID(0000): 256 Command failed: disconnected\<newline>'' [] s) \<and>
   (conn_state s \<noteq> STATE_CONNECTED \<longrightarrow>
      cmd_mtu argvp s = print ''\<newline>MTU(0000): 256 Command failed: not connected.\<newline>'' [] s) \<and>
   (conn_state s \<noteq> STATE_CONNECTED \<and> 3 \<le> length argvp \<longrightarrow>
      cmd_char_write E argvp s =
        print ''(000): 256 Command failed: disconnected\<newline>'' []
          (print (if g_strcmp0_eq ''char-write-req'' (argvp ! 0) then ''\<newline>CHAR-WRITE-REQ''
                  else ''\<newline>CHAR-WRITE-CMD'') [] s)) \<and>
   (conn_state s = STATE_CONNECTED \<longrightarrow>
      cmd_psm argvp s =
        print ''\<newline>PSM(%04x): 256 Command failed: connected.\<newline>'' [H (conn_handle s)] s) \<and>
   (conn_state s \<noteq> STATE_DISCONNECTED \<longrightarrow> cmd_connect E argvp s = s)"
  by (simp add: cmd_primary_def cmd_char_def cmd_char_desc_def cmd_read_hnd_def
      cmd_read_uuid_def cmd_mtu_def cmd_connect_def cmd_char_write_def cmd_psm_def
      write_tag_def g_strcmp0_eq_def argcp_def)

theorem state_error_lines_witness:
  "conn_state session0 \<noteq> STATE_CONNECTED \<and>
   [''primary''] \<noteq> [] \<and>
   calls (cmd_primary double [''primary''] session0) = [] \<and>
   stdout (cmd_primary double [''primary''] session0) =
     [Printf ''\<newline>PRIMARY-ALL(0000): 256 Command failed: disconnected\<newline>'' []] \<and>
   calls (cmd_read_hnd [''char-read-hnd'', ''0010''] session0) = [] \<and>
   stdout (cmd_read_hnd [''char-read-hnd'', ''0010''] session0) =
     [Printf ''\<newline>CHAR-READ-HND(0000): 256 Command failed: disconnected\<newline>'' []] \<and>
   calls (cmd_mtu [''mtu'', ''64''] session0) = [] \<and>
   conn_state connected0 \<noteq> STATE_DISCONNECTED \<and>
   cmd_connect double [''connect''] connected0 = connected0 \<and>
   conn_state connected0 = STATE_CONNECTED \<and>
   calls (cmd_psm [''psm'', ''31''] connected0) = calls connected0"
proof -
  have d: "conn_state session0 \<noteq> STATE_CONNECTED" by (simp add: session0_eq)
  have c: "conn_state connected0 = STATE_CONNECTED" by (simp add: connected0_eq)
  have e: "calls session0 = []" "stdout session0 = []" by (simp_all add: session0_eq)
  note t1 = state_error_lines [of session0 "[''primary'']" double]
  note t2 = state_error_lines [of session0 "[''char-read-hnd'', ''0010'']" double]
  note t3 = state_error_lines [of session0 "[''mtu'', ''64'']" double]
  note t4 = state_error_lines [of connected0 "[''connect'']" double]
  note t5 = state_error_lines [of connected0 "[''psm'', ''31'']" double]
  from t1 t2 t3 t4 t5 d c e show ?thesis by simp
qed

subsection \<open>What the handlers leave alone\<close>

lemma conn_vars_print [simp]: "conn_vars (print fmt args s) = conn_vars s"
  by (simp add: conn_vars_def)

lemma conn_vars_invoke [simp]: "conn_vars (invoke c s) = conn_vars s"
  by (simp add: conn_vars_def)

lemma conn_vars_stdout [simp]: "conn_vars (s\<lparr>stdout := out\<rparr>) = conn_vars s"
  by (simp add: conn_vars_def)

lemma conn_vars_callbacks:
  "conn_vars (primary_all_cb services status s) = conn_vars s"
  "conn_vars (primary_by_uuid_cb ranges status s) = conn_vars s"
  "conn_vars (char_cb characteristics status s) = conn_vars s"
  "conn_vars (char_desc_cb E status pdu s) = conn_vars s"
  "conn_vars (char_read_cb E status pdu s) = conn_vars s"
  "conn_vars (char_write_req_cb E status pdu s) = conn_vars s"
  "conn_vars (exchange_mtu_cb E status pdu s) = conn_vars s"
  "conn_vars (events_handler E pdu0 handle bytes s) = conn_vars s"
  by (simp_all add: primary_all_cb_def primary_by_uuid_cb_def char_cb_def char_desc_cb_def
      char_read_cb_def char_write_req_cb_def exchange_mtu_cb_def events_handler_def
      fold_print char_desc_rows_eq Let_def split: option.splits prod.splits)

lemma conn_vars_char_read_by_uuid_cb:
  "conn_vars (snd (char_read_by_uuid_cb E status pdu cd s)) = conn_vars s"
  by (simp add: char_read_by_uuid_cb_def split_def Let_def conn_vars_def char_read_by_uuid_rows_fields
      split: option.splits)

lemma conn_vars_commands:
  "conn_vars (cmd_exit s) = conn_vars s"
  "conn_vars (cmd_help s) = conn_vars s"
  "conn_vars (cmd_primary E argvp s) = conn_vars s"
  "conn_vars (cmd_char E argvp s) = conn_vars s"
  "conn_vars (cmd_char_desc argvp s) = conn_vars s"
  "conn_vars (cmd_read_hnd argvp s) = conn_vars s"
  "conn_vars (cmd_read_uuid E argvp s) = conn_vars s"
  "conn_vars (cmd_char_write E argvp s) = conn_vars s"
  "conn_vars (cmd_sec_level E argvp s) = conn_vars s"
  by (simp_all add: cmd_exit_def cmd_help_def cmd_primary_def cmd_char_def cmd_char_desc_def
      cmd_read_hnd_def cmd_read_uuid_def cmd_char_write_def cmd_sec_level_def write_tag_def
      fold_print split_def Let_def conn_vars_def split: option.splits)

lemma conn_vars_D:
  "conn_vars s' = conn_vars s \<Longrightarrow>
     conn_state s' = conn_state s \<and> conn_handle s' = conn_handle s \<and>
     opt_psm s' = opt_psm s \<and> opt_mtu s' = opt_mtu s"
  by (simp add: conn_vars_def)

lemma conn_vars_func:
  "f \<notin> {Cmd_connect, Cmd_disconnect, Cmd_mtu, Cmd_psm} \<Longrightarrow>
     conn_vars (func f E argvp s) = conn_vars s"
  by (cases f) (simp_all add: conn_vars_commands)

lemma parse_line_cases:
  assumes "parse_line E l s = Inr s'"
  shows "s' = s \<or> s' = cmd_exit (print ''\<newline>'' [] s) \<or> (\<exists>f argvp. s' = func f E argvp s) \<or>
         (\<exists>a. s' = print ''\<newline>ERROR(15,256): %s: command not found\<newline>'' [a] s)"
  using assms
  by (auto simp: parse_line_def Let_def split: option.splits if_splits prod.splits)

lemma handle_zero_set_state:
  "st \<noteq> STATE_CONNECTED \<Longrightarrow> conn_handle (set_state st s) = 0 \<and> conn_state (set_state st s) = st"
  by (simp add: set_state_def)

lemma handle_zero_connect_cb:
  "conn_state (connect_cb E err s) \<noteq> STATE_CONNECTED \<longrightarrow> conn_handle (connect_cb E err s) = 0"
  by (simp add: connect_cb_def set_state_def Let_def split: option.splits sum.splits)

lemma handle_zero_disconnect_io:
  "conn_state s \<noteq> STATE_CONNECTED \<longrightarrow> conn_handle s = 0 \<Longrightarrow>
     conn_state (disconnect_io s) = STATE_DISCONNECTED \<and> conn_handle (disconnect_io s) = 0"
  by (simp add: disconnect_io_def set_state_def Let_def)

lemma handle_zero_cmd_connect:
  "conn_state s \<noteq> STATE_CONNECTED \<longrightarrow> conn_handle s = 0 \<Longrightarrow>
     conn_state (cmd_connect E argvp s) \<noteq> STATE_CONNECTED \<longrightarrow>
     conn_handle (cmd_connect E argvp s) = 0"
  by (simp add: cmd_connect_def set_state_def Let_def)

lemma conn_cmd_mtu:
  "conn_state (cmd_mtu argvp s) = conn_state s \<and> conn_handle (cmd_mtu argvp s) = conn_handle s \<and>
   opt_psm (cmd_mtu argvp s) = opt_psm s"
  by (simp add: cmd_mtu_def Let_def split: prod.splits)

lemma conn_cmd_psm:
  "conn_state (cmd_psm argvp s) = conn_state s \<and> conn_handle (cmd_psm argvp s) = conn_handle s \<and>
   opt_mtu (cmd_psm argvp s) = opt_mtu s"
  by (simp add: cmd_psm_def Let_def split: prod.splits)

lemma handle_zero_func:
  assumes "conn_state s \<noteq> STATE_CONNECTED \<longrightarrow> conn_handle s = 0"
  shows "conn_state (func f E argvp s) \<noteq> STATE_CONNECTED \<longrightarrow> conn_handle (func f E argvp s) = 0"
proof (cases "f \<in> {Cmd_connect, Cmd_disconnect, Cmd_mtu, Cmd_psm}")
  case False
  then have "conn_vars (func f E argvp s) = conn_vars s" by (rule conn_vars_func)
  with assms show ?thesis by (simp add: conn_vars_def)
next
  case True
  then consider "f = Cmd_connect" | "f = Cmd_disconnect" | "f = Cmd_mtu" | "f = Cmd_psm"
    by auto
  then show ?thesis
  proof cases
    case 1
    with handle_zero_cmd_connect [OF assms] show ?thesis by simp
  next
    case 2
    with handle_zero_disconnect_io [OF assms] show ?thesis by (simp add: cmd_disconnect_def)
  next
    case 3
    with assms show ?thesis by (simp add: conn_cmd_mtu)
  next
    case 4
    with assms show ?thesis by (simp add: conn_cmd_psm)
  qed
qed

lemma handle_zero_step:
  assumes "step E ev s = Inr s'"
    and "conn_state s \<noteq> STATE_CONNECTED \<longrightarrow> conn_handle s = 0"
  shows "conn_state s' \<noteq> STATE_CONNECTED \<longrightarrow> conn_handle s' = 0"
proof (cases ev)
  case (Ev_line l)
  with assms(1) have "parse_line E l s = Inr s'" by simp
  from parse_line_cases [OF this]
  consider "s' = s" | "s' = cmd_exit (print ''\<newline>'' [] s)"
    | f argvp where "s' = func f E argvp s"
    | a where "s' = print ''\<newline>ERROR(15,256): %s: command not found\<newline>'' [a] s"
    by blast
  then show ?thesis
  proof cases
    case 3
    with handle_zero_func [OF assms(2), of f E argvp] show ?thesis by simp
  qed (use assms(2) in \<open>simp_all add: cmd_exit_def\<close>)
next
  case (Ev_connect_cb err)
  with assms(1) handle_zero_connect_cb show ?thesis by auto
next
  case Ev_channel_watcher
  with assms handle_zero_disconnect_io [of "print ''\<newline>DISCONNECTED(%04x): %s\<newline>''
      [H (conn_handle s), S (opt_dst s)] s"]
  show ?thesis by (auto simp: channel_watcher_def)
next
  case (Ev_char_read_by_uuid_cb status pdu cd)
  with assms conn_vars_D [OF conn_vars_char_read_by_uuid_cb] show ?thesis by auto
qed (use assms in \<open>auto simp: conn_vars_callbacks [THEN conn_vars_D]\<close>)

lemma handle_zero_run:
  "run evs s = Inr s' \<Longrightarrow> conn_state s \<noteq> STATE_CONNECTED \<longrightarrow> conn_handle s = 0 \<Longrightarrow>
     conn_state s' \<noteq> STATE_CONNECTED \<longrightarrow> conn_handle s' = 0"
proof (induction evs arbitrary: s)
  case Nil
  then show ?case by simp
next
  case (Cons a evs)
  obtain E ev where a: "a = (E, ev)" by (cases a)
  with Cons.prems(1) obtain s1 where s1: "step E ev s = Inr s1" and r: "run evs s1 = Inr s'"
    by (auto split: sum.splits)
  from handle_zero_step [OF s1 Cons.prems(2)] Cons.IH [OF r] show ?case by blast
qed

lemma connected_cmd_connect:
  "conn_state (cmd_connect E argvp s) = STATE_CONNECTED \<Longrightarrow> cmd_connect E argvp s = s"
  by (simp add: cmd_connect_def set_state_def Let_def split: if_splits)

lemma connected_disconnect_io:
  "conn_state (disconnect_io s) \<noteq> STATE_CONNECTED"
  by (simp add: disconnect_io_def set_state_def Let_def)

lemma handle_nonzero_func:
  assumes "conn_state s = STATE_CONNECTED \<longrightarrow> conn_handle s \<noteq> 0"
  shows "conn_state (func f E argvp s) = STATE_CONNECTED \<longrightarrow> conn_handle (func f E argvp s) \<noteq> 0"
proof (cases "f \<in> {Cmd_connect, Cmd_disconnect, Cmd_mtu, Cmd_psm}")
  case False
  then have "conn_vars (func f E argvp s) = conn_vars s" by (rule conn_vars_func)
  with assms show ?thesis by (simp add: conn_vars_def)
next
  case True
  then consider "f = Cmd_connect" | "f = Cmd_disconnect" | "f = Cmd_mtu" | "f = Cmd_psm"
    by auto
  then show ?thesis
  proof cases
    case 1
    with assms connected_cmd_connect [of E argvp s] show ?thesis by auto
  next
    case 2
    with connected_disconnect_io show ?thesis by (simp add: cmd_disconnect_def)
  next
    case 3
    with assms show ?thesis by (simp add: conn_cmd_mtu)
  next
    case 4
    with assms show ?thesis by (simp add: conn_cmd_psm)
  qed
qed

lemma handle_nonzero_connect_cb:
  "conn_state s = STATE_CONNECTING \<Longrightarrow> bt_io_get_res E \<noteq> Inr 0 \<Longrightarrow>
     conn_state (connect_cb E err s) = STATE_CONNECTED \<longrightarrow> conn_handle (connect_cb E err s) \<noteq> 0"
  by (auto simp: connect_cb_def set_state_def Let_def split: option.splits sum.splits)

lemma handle_nonzero_step:
  assumes "step E ev s = Inr s'"
    and "\<forall>err. ev = Ev_connect_cb err \<longrightarrow>
           conn_state s = STATE_CONNECTING \<and> bt_io_get_res E \<noteq> Inr 0"
    and "conn_state s = STATE_CONNECTED \<longrightarrow> conn_handle s \<noteq> 0"
  shows "conn_state s' = STATE_CONNECTED \<longrightarrow> conn_handle s' \<noteq> 0"
proof (cases ev)
  case (Ev_line l)
  with assms(1) have "parse_line E l s = Inr s'" by simp
  from parse_line_cases [OF this]
  consider "s' = s" | "s' = cmd_exit (print ''\<newline>'' [] s)"
    | f argvp where "s' = func f E argvp s"
    | a where "s' = print ''\<newline>ERROR(15,256): %s: command not found\<newline>'' [a] s"
    by blast
  then show ?thesis
  proof cases
    case 3
    with handle_nonzero_func [OF assms(3), of f E argvp] show ?thesis by simp
  qed (use assms(3) in \<open>simp_all add: cmd_exit_def\<close>)
next
  case (Ev_connect_cb err)
  with assms(1) assms(2) handle_nonzero_connect_cb [of s E err]
  show ?thesis by auto
next
  case Ev_channel_watcher
  with assms(1) connected_disconnect_io show ?thesis by (auto simp: channel_watcher_def)
next
  case (Ev_char_read_by_uuid_cb status pdu cd)
  with assms conn_vars_D [OF conn_vars_char_read_by_uuid_cb] show ?thesis by auto
qed (use assms in \<open>auto simp: conn_vars_callbacks [THEN conn_vars_D]\<close>)

lemma handle_nonzero_run:
  "run evs s = Inr s' \<Longrightarrow> transport_ok evs s \<Longrightarrow>
     conn_state s = STATE_CONNECTED \<longrightarrow> conn_handle s \<noteq> 0 \<Longrightarrow>
     conn_state s' = STATE_CONNECTED \<longrightarrow> conn_handle s' \<noteq> 0"
proof (induction evs arbitrary: s)
  case Nil
  then show ?case by simp
next
  case (Cons a evs)
  obtain E ev where a: "a = (E, ev)" by (cases a)
  with Cons.prems(1) obtain s1 where s1: "step E ev s = Inr s1" and r: "run evs s1 = Inr s'"
    by (auto split: sum.splits)
  from Cons.prems(2) a s1 have ok: "transport_ok evs s1"
    and cb: "\<forall>err. ev = Ev_connect_cb err \<longrightarrow>
               conn_state s = STATE_CONNECTING \<and> bt_io_get_res E \<noteq> Inr 0"
    by auto
  from handle_nonzero_step [OF s1 cb Cons.prems(3)] Cons.IH [OF r ok] show ?case by blast
qed

subsection \<open>The connection handle and the connection state\<close>

text \<open>
  C5, as the claim states it, fails in one direction. \<open>connect_cb\<close> stores whatever handle
  \<^verbatim>\<open>bt_io_get\<close> gives and enters \<open>STATE_CONNECTED\<close> without looking at it. A transport
  that assigns the handle 0 (a valid HCI connection handle) leaves the shell connected
  with the handle 0.
\<close>

theorem connected_with_handle_zero_counterexample:
  "case run [(double, Ev_line (Some ''connect'')),
             (double\<lparr>bt_io_get_res := Inr 0\<rparr>, Ev_connect_cb None)] session0 of
     Inl f \<Rightarrow> False
   | Inr s \<Rightarrow> conn_state s = STATE_CONNECTED \<and> conn_handle s = 0"
  by (simp add: dispatch_defs isspace_def double_def double_parse_argv_def cmd_connect_def
      connect_cb_def set_state_def session0_eq argcp_def Let_def)

text \<open>
  C5, amended. In every state the shell reaches from its start, whatever the events and
  the answers of the collaborators: a handle other than 0 implies \<open>STATE_CONNECTED\<close>
  (so every transition out of \<open>STATE_CONNECTED\<close> has reset the handle). When the
  transport completes connection attempts only while one is pending and never assigns the
  handle 0, the handle is other than 0 exactly in \<open>STATE_CONNECTED\<close>. \<open>set_state\<close> to
  any other state clears the handle; a connection attempt that the transport fails, in
  the callback or already in \<^verbatim>\<open>gatt_connect\<close>, leaves \<open>STATE_DISCONNECTED\<close> and the
  handle 0.
\<close>

theorem connection_handle_invariant:
  assumes "run evs (interactive_init src dst dst_type psm) = Inr s"
  shows "(conn_handle s \<noteq> 0 \<longrightarrow> conn_state s = STATE_CONNECTED) \<and>
         (transport_ok evs (interactive_init src dst dst_type psm) \<longrightarrow>
            (conn_handle s \<noteq> 0 \<longleftrightarrow> conn_state s = STATE_CONNECTED)) \<and>
         (\<forall>st. st \<noteq> STATE_CONNECTED \<longrightarrow> conn_handle (set_state st s) = 0) \<and>
         (\<forall>E err. conn_state (connect_cb E (Some err) s) = STATE_DISCONNECTED \<and>
                  conn_handle (connect_cb E (Some err) s) = 0) \<and>
         (\<forall>E argvp. conn_state s = STATE_DISCONNECTED \<and> \<not> gatt_connect_ok E \<longrightarrow>
                  conn_state (cmd_connect E argvp s) = STATE_DISCONNECTED \<and>
                  conn_handle (cmd_connect E argvp s) = 0)"
proof -
  let ?i = "interactive_init src dst dst_type psm"
  have i: "conn_state ?i = STATE_DISCONNECTED" "conn_handle ?i = 0"
    by (simp_all add: interactive_init_def)
  from handle_zero_run [OF assms] i
  have z: "conn_state s \<noteq> STATE_CONNECTED \<longrightarrow> conn_handle s = 0" by simp
  have n: "transport_ok evs ?i \<longrightarrow> (conn_state s = STATE_CONNECTED \<longrightarrow> conn_handle s \<noteq> 0)"
    using handle_nonzero_run [OF assms] i by simp
  have f1: "\<forall>st. st \<noteq> STATE_CONNECTED \<longrightarrow> conn_handle (set_state st s) = 0"
    by (simp add: set_state_def)
  have f2: "\<forall>E err. conn_state (connect_cb E (Some err) s) = STATE_DISCONNECTED \<and>
                  conn_handle (connect_cb E (Some err) s) = 0"
    by (simp add: connect_cb_def set_state_def Let_def)
  have f3: "\<forall>E argvp. conn_state s = STATE_DISCONNECTED \<and> \<not> gatt_connect_ok E \<longrightarrow>
                  conn_state (cmd_connect E argvp s) = STATE_DISCONNECTED \<and>
                  conn_handle (cmd_connect E argvp s) = 0"
    using z by (simp add: cmd_connect_def set_state_def Let_def)
  from z n f1 f2 f3 show ?thesis by blast
qed

lemma run_connect:
  "run [(double, Ev_line (Some ''connect'')), (double, Ev_connect_cb None)] session0
     = Inr connected0"
  by (simp add: dispatch_defs isspace_def double_def double_parse_argv_def connected0_def)

text \<open>
  When the connection is made but \<^verbatim>\<open>bt_io_get\<close> fails, \<open>connect_cb\<close> prints the error
  and clears the handle without a call of \<open>set_state\<close>: the state stays what it was,
  \<open>STATE_CONNECTING\<close> after a \<^verbatim>\<open>connect\<close>.
\<close>

lemma connect_cb_handle_query_fails:
  "bt_io_get_res E = Inl gerr \<Longrightarrow>
     conn_state (connect_cb E None s) = conn_state s \<and> conn_handle (connect_cb E None s) = 0"
  by (simp add: connect_cb_def Let_def)

theorem connection_handle_invariant_witness:
  "run [(double, Ev_line (Some ''connect'')), (double, Ev_connect_cb None)]
     (interactive_init None (Some ''00:11:22:33:44:55'') (Some ''public'') 0) = Inr connected0 \<and>
   transport_ok [(double, Ev_line (Some ''connect'')), (double, Ev_connect_cb None)]
     (interactive_init None (Some ''00:11:22:33:44:55'') (Some ''public'') 0) \<and>
   conn_handle connected0 \<noteq> 0 \<and> conn_state connected0 = STATE_CONNECTED \<and>
   STATE_CONNECTING \<noteq> STATE_CONNECTED \<and>
   conn_handle (set_state STATE_CONNECTING connected0) = 0 \<and>
   conn_state (connect_cb double (Some \<lparr>code = 111, message = ''Connection refused''\<rparr>) connected0)
     = STATE_DISCONNECTED \<and>
   conn_handle (connect_cb double (Some \<lparr>code = 111, message = ''Connection refused''\<rparr>) connected0)
     = 0"
proof -
  have r: "run [(double, Ev_line (Some ''connect'')), (double, Ev_connect_cb None)]
     (interactive_init None (Some ''00:11:22:33:44:55'') (Some ''public'') 0) = Inr connected0"
    using run_connect by (simp add: session0_def)
  have t: "transport_ok [(double, Ev_line (Some ''connect'')), (double, Ev_connect_cb None)]
     (interactive_init None (Some ''00:11:22:33:44:55'') (Some ''public'') 0)"
    by (simp add: dispatch_defs isspace_def double_def double_parse_argv_def cmd_connect_def
        set_state_def session0_eq [unfolded session0_def] argcp_def Let_def connect_cb_def)
  have c: "conn_state connected0 = STATE_CONNECTED" by (simp add: connected0_eq)
  from connection_handle_invariant [OF r] r t c show ?thesis by simp
qed

subsection \<open>The MTU of a connection\<close>

lemma mtu_vars_func:
  assumes "conn_state s = STATE_CONNECTED" and "conn_state (func f E argvp s) = STATE_CONNECTED"
  shows "opt_psm (func f E argvp s) = opt_psm s \<and>
         (opt_mtu s \<noteq> 0 \<longrightarrow> opt_mtu (func f E argvp s) = opt_mtu s)"
proof (cases "f \<in> {Cmd_connect, Cmd_disconnect, Cmd_mtu, Cmd_psm}")
  case False
  then have "conn_vars (func f E argvp s) = conn_vars s" by (rule conn_vars_func)
  then show ?thesis by (simp add: conn_vars_def)
next
  case True
  then consider "f = Cmd_connect" | "f = Cmd_disconnect" | "f = Cmd_mtu" | "f = Cmd_psm"
    by auto
  then show ?thesis
  proof cases
    case 1
    with assms connected_cmd_connect [of E argvp s] show ?thesis by simp
  next
    case 2
    with assms(2) connected_disconnect_io [of s] show ?thesis by (simp add: cmd_disconnect_def)
  next
    case 3
    with assms(1) show ?thesis by (simp add: cmd_mtu_def Let_def split: prod.splits)
  next
    case 4
    with assms(1) show ?thesis by (simp add: cmd_psm_def)
  qed
qed

lemma mtu_vars_connect_cb:
  "opt_psm (connect_cb E err s) = opt_psm s \<and> opt_mtu (connect_cb E err s) = opt_mtu s"
  by (simp add: connect_cb_def set_state_def Let_def split: option.splits sum.splits)

lemma mtu_vars_step:
  assumes "step E ev s = Inr s'"
    and "conn_state s = STATE_CONNECTED" and "conn_state s' = STATE_CONNECTED"
  shows "opt_psm s' = opt_psm s \<and> (opt_mtu s \<noteq> 0 \<longrightarrow> opt_mtu s' = opt_mtu s)"
proof (cases ev)
  case (Ev_line l)
  with assms(1) have "parse_line E l s = Inr s'" by simp
  from parse_line_cases [OF this]
  consider "s' = s" | "s' = cmd_exit (print ''\<newline>'' [] s)"
    | f argvp where "s' = func f E argvp s"
    | a where "s' = print ''\<newline>ERROR(15,256): %s: command not found\<newline>'' [a] s"
    by blast
  then show ?thesis
  proof cases
    case 3
    with mtu_vars_func [OF assms(2), of f E argvp] assms(3) show ?thesis by simp
  qed (simp_all add: cmd_exit_def)
next
  case (Ev_connect_cb err)
  with assms(1) mtu_vars_connect_cb [of E err s] show ?thesis by auto
next
  case Ev_channel_watcher
  with assms(1,3) connected_disconnect_io show ?thesis by (auto simp: channel_watcher_def)
next
  case (Ev_char_read_by_uuid_cb status pdu cd)
  with assms conn_vars_D [OF conn_vars_char_read_by_uuid_cb] show ?thesis by auto
qed (use assms in \<open>auto simp: conn_vars_callbacks [THEN conn_vars_D]\<close>)

lemma mtu_vars_run:
  "stays_connected evs s \<Longrightarrow> run evs s = Inr s' \<Longrightarrow>
     conn_state s' = STATE_CONNECTED \<and> opt_psm s' = opt_psm s \<and>
     (opt_mtu s \<noteq> 0 \<longrightarrow> opt_mtu s' = opt_mtu s)"
proof (induction evs arbitrary: s)
  case Nil
  then show ?case by simp
next
  case (Cons a evs)
  obtain E ev where a: "a = (E, ev)" by (cases a)
  with Cons.prems(2) obtain s1 where s1: "step E ev s = Inr s1" and r: "run evs s1 = Inr s'"
    by (auto split: sum.splits)
  from Cons.prems(1) a s1 have c: "conn_state s = STATE_CONNECTED" and sc: "stays_connected evs s1"
    by auto
  from sc have c1: "conn_state s1 = STATE_CONNECTED" by (cases evs) auto
  from mtu_vars_step [OF s1 c c1] Cons.IH [OF sc r] show ?case by auto
qed

lemma cmd_mtu_refused:
  assumes "conn_state s = STATE_CONNECTED" and "opt_psm s = 0" and "opt_mtu s \<noteq> 0"
    and "2 \<le> length argvp"
  shows "cmd_mtu argvp s =
           print ''\<newline>MTU(%04x): %i Command failed: MTU exchange can only occur once per connection.\<newline>''
             [H (conn_handle s), I ATT_ECODE_UNLIKELY] s"
  using assms by (simp add: cmd_mtu_def argcp_def)

lemma cmd_mtu_no_request:
  "opt_mtu s \<noteq> 0 \<Longrightarrow> calls (cmd_mtu argvp s) = calls s"
  by (simp add: cmd_mtu_def)



lemma strtoll_64: "strtoll ''64'' 0 = (64, [], False)"
  by (simp add: strto_defs)

lemma strtoll_5: "strtoll ''5'' 0 = (5, [], False)"
  by (simp add: strto_defs)


lemma cmd_mtu_5:
  "cmd_mtu [''mtu'', ''5''] connected0 =
     print ''\<newline>MTU(%04x): %i Invalid value. Minimum MTU size is %d\<newline>''
       [H 0x40, I ATT_ECODE_UNLIKELY, I ATT_DEFAULT_LE_MTU] (connected0\<lparr>opt_mtu := 5\<rparr>)"
  by (simp add: cmd_mtu_def argcp_def strtoll_5 to_int_def ATT_DEFAULT_LE_MTU_def connected0_eq)

lemma conn_state_events_handler:
  "conn_state (events_handler E pdu0 handle bytes s) = conn_state s"
  "conn_handle (events_handler E pdu0 handle bytes s) = conn_handle s"
  using conn_vars_callbacks(8) [THEN conn_vars_D] by simp_all



lemma strtoll_below_llong_min:
  "strtoll ''-9223372036854775809'' 0 = (LLONG_MIN, [], True)"
  by (simp add: strto_defs)

lemma to_int_llong_min: "to_int LLONG_MIN = 0"
  by (simp add: to_int_def LLONG_MIN_def)

text \<open>
  C10, as the claim states it, fails for a value that is rejected with \<^verbatim>\<open>errno\<close> set and
  is 0 once stored. \<^verbatim>\<open>mtu -9223372036854775809\<close> is below the range of a
  \<^verbatim>\<open>long long\<close>: \<^verbatim>\<open>strtoll\<close> sets \<^verbatim>\<open>errno\<close> and returns \<^verbatim>\<open>LLONG_MIN\<close>, whose
  narrowing to an \<^verbatim>\<open>int\<close> is 0. The command is answered with the invalid-value line and
  sends nothing, \<^verbatim>\<open>opt_mtu\<close> holds 0, and the next \<^verbatim>\<open>mtu 64\<close> on the same
  connection is accepted and sends its request.
\<close>

theorem mtu_rejected_value_zero_counterexample:
  "(let s1 = cmd_mtu [''mtu'', ''-9223372036854775809''] connected0;
        s2 = cmd_mtu [''mtu'', ''64''] s1
    in strtoll ''-9223372036854775809'' 0 = (LLONG_MIN, [], True) \<and>
       opt_mtu s1 = 0 \<and>
       calls s1 = calls connected0 \<and>
       stdout s1 =
         stdout connected0 @
         [Printf ''\<newline>MTU(%04x): %i Invalid value. Minimum MTU size is %d\<newline>''
            [H 0x40, I ATT_ECODE_UNLIKELY, I ATT_DEFAULT_LE_MTU]] \<and>
       calls s2 = calls s1 @ [Gatt_exchange_mtu 64 CB_exchange_mtu] \<and>
       stdout s2 = stdout s1)"
proof -
  have c: "conn_state connected0 = STATE_CONNECTED" "opt_psm connected0 = 0"
    "opt_mtu connected0 = 0" "conn_handle connected0 = 0x40"
    by (simp_all add: connected0_eq)
  have s1: "cmd_mtu [''mtu'', ''-9223372036854775809''] connected0 =
      print ''\<newline>MTU(%04x): %i Invalid value. Minimum MTU size is %d\<newline>''
        [H 0x40, I ATT_ECODE_UNLIKELY, I ATT_DEFAULT_LE_MTU] (connected0\<lparr>opt_mtu := 0\<rparr>)"
    using c
    by (simp add: cmd_mtu_def argcp_def strtoll_below_llong_min to_int_llong_min)
  have s2: "cmd_mtu [''mtu'', ''64''] s =
      invoke (Gatt_exchange_mtu 64 CB_exchange_mtu) (s\<lparr>opt_mtu := 64\<rparr>)"
    if "conn_state s = STATE_CONNECTED" "opt_psm s = 0" "opt_mtu s = 0" for s
    using that
    by (simp add: cmd_mtu_def argcp_def strtoll_64 to_int_def ATT_DEFAULT_LE_MTU_def)
  have p: "conn_state (cmd_mtu [''mtu'', ''-9223372036854775809''] connected0) = STATE_CONNECTED"
    "opt_psm (cmd_mtu [''mtu'', ''-9223372036854775809''] connected0) = 0"
    "opt_mtu (cmd_mtu [''mtu'', ''-9223372036854775809''] connected0) = 0"
    by (simp_all add: s1 c)
  show ?thesis
    unfolding Let_def s2 [OF p]
    by (simp add: s1 strtoll_below_llong_min)
qed

text \<open>
  C10, amended. An \<^verbatim>\<open>mtu\<close> command that reaches the conversion (connected, over LE, no
  MTU set yet) with a value that fails the test, because \<^verbatim>\<open>errno\<close> is set or because it
  is below the minimum, has stored the value, narrowed to an \<^verbatim>\<open>int\<close>, in \<^verbatim>\<open>opt_mtu\<close>,
  printed the invalid-value line and sent nothing. When the stored value is not 0, then
  after any events that keep the shell connected every \<^verbatim>\<open>mtu\<close> command sends nothing
  and, with a value argument, is refused with the once-per-connection line.
  \<open>disconnect_io\<close> outside \<open>STATE_DISCONNECTED\<close> resets \<^verbatim>\<open>opt_mtu\<close> to 0.
\<close>

theorem mtu_rejected_value_blocks:
  "conn_state s = STATE_CONNECTED \<and> opt_psm s = 0 \<and> opt_mtu s = 0 \<and> 2 \<le> length argvp \<and>
   strtoll (argvp ! 1) 0 = (v, e, errno) \<and> (errno \<or> to_int v < ATT_DEFAULT_LE_MTU) \<and>
   to_int v \<noteq> 0 \<longrightarrow>
     opt_mtu (cmd_mtu argvp s) = to_int v \<and>
     calls (cmd_mtu argvp s) = calls s \<and>
     stdout (cmd_mtu argvp s) =
       stdout s @
       [Printf ''\<newline>MTU(%04x): %i Invalid value. Minimum MTU size is %d\<newline>''
          [H (conn_handle s), I ATT_ECODE_UNLIKELY, I ATT_DEFAULT_LE_MTU]] \<and>
     (stays_connected evs (cmd_mtu argvp s) \<and> run evs (cmd_mtu argvp s) = Inr s2 \<longrightarrow>
        calls (cmd_mtu argvp2 s2) = calls s2 \<and>
        (2 \<le> length argvp2 \<longrightarrow>
           cmd_mtu argvp2 s2 =
             print ''\<newline>MTU(%04x): %i Command failed: MTU exchange can only occur once per connection.\<newline>''
               [H (conn_handle s2), I ATT_ECODE_UNLIKELY] s2)) \<and>
     (conn_state s3 \<noteq> STATE_DISCONNECTED \<longrightarrow> opt_mtu (disconnect_io s3) = 0)"
proof (intro impI)
  assume a: "conn_state s = STATE_CONNECTED \<and> opt_psm s = 0 \<and> opt_mtu s = 0 \<and> 2 \<le> length argvp \<and>
   strtoll (argvp ! 1) 0 = (v, e, errno) \<and> (errno \<or> to_int v < ATT_DEFAULT_LE_MTU) \<and>
   to_int v \<noteq> 0"
  then have eq: "cmd_mtu argvp s =
      print ''\<newline>MTU(%04x): %i Invalid value. Minimum MTU size is %d\<newline>''
        [H (conn_handle s), I ATT_ECODE_UNLIKELY, I ATT_DEFAULT_LE_MTU] (s\<lparr>opt_mtu := to_int v\<rparr>)"
    by (auto simp: cmd_mtu_def argcp_def Let_def)
  have p1: "opt_mtu (cmd_mtu argvp s) = to_int v" "calls (cmd_mtu argvp s) = calls s"
    "stdout (cmd_mtu argvp s) =
       stdout s @
       [Printf ''\<newline>MTU(%04x): %i Invalid value. Minimum MTU size is %d\<newline>''
          [H (conn_handle s), I ATT_ECODE_UNLIKELY, I ATT_DEFAULT_LE_MTU]]"
    by (simp_all add: eq)
  have p0: "opt_psm (cmd_mtu argvp s) = 0" using a by (simp add: eq)
  have p2: "calls (cmd_mtu argvp2 s2) = calls s2 \<and>
        (2 \<le> length argvp2 \<longrightarrow>
           cmd_mtu argvp2 s2 =
             print ''\<newline>MTU(%04x): %i Command failed: MTU exchange can only occur once per connection.\<newline>''
               [H (conn_handle s2), I ATT_ECODE_UNLIKELY] s2)"
    if b: "stays_connected evs (cmd_mtu argvp s) \<and> run evs (cmd_mtu argvp s) = Inr s2"
  proof -
    from mtu_vars_run [of evs "cmd_mtu argvp s" s2] b p1(1) p0 a
    have s2: "conn_state s2 = STATE_CONNECTED" "opt_psm s2 = 0" "opt_mtu s2 \<noteq> 0" by auto
    from s2 cmd_mtu_refused [of s2 argvp2] cmd_mtu_no_request [of s2 argvp2]
    show ?thesis by simp
  qed
  have p3: "conn_state s3 \<noteq> STATE_DISCONNECTED \<longrightarrow> opt_mtu (disconnect_io s3) = 0"
    by (simp add: disconnect_io_def set_state_def Let_def)
  from p1 p2 p3 show "opt_mtu (cmd_mtu argvp s) = to_int v \<and>
     calls (cmd_mtu argvp s) = calls s \<and>
     stdout (cmd_mtu argvp s) =
       stdout s @
       [Printf ''\<newline>MTU(%04x): %i Invalid value. Minimum MTU size is %d\<newline>''
          [H (conn_handle s), I ATT_ECODE_UNLIKELY, I ATT_DEFAULT_LE_MTU]] \<and>
     (stays_connected evs (cmd_mtu argvp s) \<and> run evs (cmd_mtu argvp s) = Inr s2 \<longrightarrow>
        calls (cmd_mtu argvp2 s2) = calls s2 \<and>
        (2 \<le> length argvp2 \<longrightarrow>
           cmd_mtu argvp2 s2 =
             print ''\<newline>MTU(%04x): %i Command failed: MTU exchange can only occur once per connection.\<newline>''
               [H (conn_handle s2), I ATT_ECODE_UNLIKELY] s2)) \<and>
     (conn_state s3 \<noteq> STATE_DISCONNECTED \<longrightarrow> opt_mtu (disconnect_io s3) = 0)"
    by blast
qed

theorem mtu_rejected_value_blocks_witness:
  "(let s1 = cmd_mtu [''mtu'', ''5''] connected0;
        evs = [(double, Ev_events_handler ATT_OP_HANDLE_NOTIFY 0x10 [1])];
        s2 = events_handler double ATT_OP_HANDLE_NOTIFY 0x10 [1] s1
    in conn_state connected0 = STATE_CONNECTED \<and> opt_psm connected0 = 0 \<and>
       opt_mtu connected0 = 0 \<and> 2 \<le> length [''mtu'', ''5''] \<and>
       strtoll ([''mtu'', ''5''] ! 1) 0 = (5, [], False) \<and>
       to_int 5 < ATT_DEFAULT_LE_MTU \<and> to_int 5 \<noteq> 0 \<and>
       opt_mtu s1 = to_int 5 \<and> calls s1 = calls connected0 \<and>
       stays_connected evs s1 \<and> run evs s1 = Inr s2 \<and>
       2 \<le> length [''mtu'', ''64''] \<and>
       calls (cmd_mtu [''mtu'', ''64''] s2) = calls s2 \<and>
       cmd_mtu [''mtu'', ''64''] s2 =
         print ''\<newline>MTU(%04x): %i Command failed: MTU exchange can only occur once per connection.\<newline>''
           [H (conn_handle s2), I ATT_ECODE_UNLIKELY] s2 \<and>
       conn_state s2 \<noteq> STATE_DISCONNECTED \<and> opt_mtu (disconnect_io s2) = 0)"
proof -
  let ?s1 = "cmd_mtu [''mtu'', ''5''] connected0"
  let ?evs = "[(double, Ev_events_handler ATT_OP_HANDLE_NOTIFY 0x10 [1])]"
  let ?s2 = "events_handler double ATT_OP_HANDLE_NOTIFY 0x10 [1] ?s1"
  have p1: "conn_state connected0 = STATE_CONNECTED" and p2: "opt_psm connected0 = 0"
    and p3: "opt_mtu connected0 = 0"
    by (simp_all add: connected0_eq)
  have p4: "2 \<le> length [''mtu'', ''5'']" by simp
  have p5: "strtoll ([''mtu'', ''5''] ! 1) 0 = (5, [], False)" by (simp add: strtoll_5)
  have p6: "to_int 5 < ATT_DEFAULT_LE_MTU" and p7: "to_int 5 \<noteq> 0"
    by (simp_all add: to_int_def ATT_DEFAULT_LE_MTU_def)
  have st: "conn_state ?s1 = STATE_CONNECTED"
    by (simp add: conn_cmd_mtu connected0_eq)
  have sc: "stays_connected ?evs ?s1"
    by (simp add: st conn_state_events_handler)
  have r: "run ?evs ?s1 = Inr ?s2" by simp
  have c2: "conn_state ?s2 \<noteq> STATE_DISCONNECTED"
    by (simp add: conn_state_events_handler st)
  have l: "2 \<le> length [''mtu'', ''64'']" by simp
  note t = mtu_rejected_value_blocks
             [of connected0 "[''mtu'', ''5'']" 5 "[]" False ?evs ?s2 "[''mtu'', ''64'']" ?s2]
  from t p1 p2 p3 p4 p5 p6 p7
  have a: "opt_mtu ?s1 = to_int 5 \<and> calls ?s1 = calls connected0 \<and>
     (stays_connected ?evs ?s1 \<and> run ?evs ?s1 = Inr ?s2 \<longrightarrow>
        calls (cmd_mtu [''mtu'', ''64''] ?s2) = calls ?s2 \<and>
        (2 \<le> length [''mtu'', ''64''] \<longrightarrow>
           cmd_mtu [''mtu'', ''64''] ?s2 =
             print ''\<newline>MTU(%04x): %i Command failed: MTU exchange can only occur once per connection.\<newline>''
               [H (conn_handle ?s2), I ATT_ECODE_UNLIKELY] ?s2)) \<and>
     (conn_state ?s2 \<noteq> STATE_DISCONNECTED \<longrightarrow> opt_mtu (disconnect_io ?s2) = 0)"
    by blast
  from a sc r l c2 p1 p2 p3 p4 p5 p6 p7 show ?thesis unfolding Let_def by blast
qed

subsection \<open>The security level\<close>

lemma br_connected0_eq:
  "br_connected0 =
     \<lparr>iochannel = True, attrib = True, opt_src = None, opt_dst = Some ''00:11:22:33:44:55'',
      opt_dst_type = Some ''public'', opt_sec_level = Some ''low'', opt_psm = 31, opt_mtu = 0,
      conn_handle = 0x40, start = 0, end' = 0, conn_state = STATE_CONNECTED,
      stdout = [Printf ''\<newline>CONNECTED(%04x): %s 0\<newline>''
                  [H 0x40, S (Some ''00:11:22:33:44:55'')]],
      calls = [Gatt_connect None (Some ''00:11:22:33:44:55'') (Some ''public'') (Some ''low'') 31 0,
               G_io_add_watch, G_attrib_new, G_attrib_register ATT_OP_HANDLE_NOTIFY,
               G_attrib_register ATT_OP_HANDLE_IND, Bt_io_get]\<rparr>"
  by (simp add: br_connected0_def interactive_init_def cmd_connect_def
      connect_cb_def double_def set_state_def print_def invoke_def argcp_def Let_def)

lemma sec_level_of_high: "sec_level_of ''high'' = Some BT_IO_SEC_HIGH"
  by (simp add: sec_level_of_def strcasecmp_eq_def tolower_def)

lemma sec_level_of_top: "sec_level_of ''top'' = None"
  by (simp add: sec_level_of_def strcasecmp_eq_def tolower_def)

text \<open>
  C3, as the claim states it, fails on the configuration: \<open>cmd_sec_level\<close> stores a valid
  level in \<^verbatim>\<open>opt_sec_level\<close> before it looks at the PSM and the state. Over LE and
  disconnected, \<^verbatim>\<open>sec-level high\<close> is answered with the error line and the configured
  level is \<^verbatim>\<open>high\<close> afterwards.
\<close>

theorem sec_level_stored_counterexample:
  "conn_state session0 \<noteq> STATE_CONNECTED \<and> opt_psm session0 = 0 \<and>
   opt_sec_level session0 = Some ''low'' \<and>
   opt_sec_level (cmd_sec_level double [''sec-level'', ''high''] session0) = Some ''high'' \<and>
   opt_sec_level (cmd_sec_level double [''sec-level'', ''high''] session0)
     \<noteq> opt_sec_level session0"
  by (simp add: cmd_sec_level_def sec_level_of_high argcp_def session0_eq Let_def)

text \<open>
  C3, amended. A level string that is none of \<^verbatim>\<open>low\<close>, \<^verbatim>\<open>medium\<close>, \<^verbatim>\<open>high\<close> is
  answered with the allowed-values line and nothing else changes. A valid level is stored
  as the configured level in every case. With no PSM and outside \<open>STATE_CONNECTED\<close> the
  LE error line is printed and nothing is applied: the result is the state with the new
  level and that line. With a PSM and outside \<open>STATE_DISCONNECTED\<close> the
  must-be-disconnected line is printed; what the handler does after that line is not part
  of the statement.
\<close>

theorem sec_level_rejections:
  "(2 \<le> length argvp \<and> sec_level_of (argvp ! 1) = None \<longrightarrow>
      cmd_sec_level E argvp s =
        print ''\<newline>SEC-LEVEL(%04x): 257 Allowed values: low | medium | high\<newline>''
          [H (conn_handle s)] s) \<and>
   (2 \<le> length argvp \<and> sec_level_of (argvp ! 1) \<noteq> None \<longrightarrow>
      opt_sec_level (cmd_sec_level E argvp s) = Some (argvp ! 1)) \<and>
   (2 \<le> length argvp \<and> sec_level_of (argvp ! 1) \<noteq> None \<and>
    opt_psm s = 0 \<and> conn_state s \<noteq> STATE_CONNECTED \<longrightarrow>
      cmd_sec_level E argvp s =
        print ''\<newline>SEC-LEVEL(0000): 256 It can only be done when connected for LE connections\<newline>''
          [] (s\<lparr>opt_sec_level := Some (argvp ! 1)\<rparr>)) \<and>
   (2 \<le> length argvp \<and> sec_level_of (argvp ! 1) \<noteq> None \<and>
    opt_psm s \<noteq> 0 \<and> conn_state s \<noteq> STATE_DISCONNECTED \<longrightarrow>
      Printf ''\<newline>SEC-LEVEL(%04x): 256 It must be disconnected to this change take effect\<newline>''
        [H (conn_handle s)] \<in> set (stdout (cmd_sec_level E argvp s)))"
  by (auto simp: cmd_sec_level_def argcp_def Let_def split: option.splits)

theorem sec_level_rejections_witness:
  "2 \<le> length [''sec-level'', ''top''] \<and> sec_level_of ([''sec-level'', ''top''] ! 1) = None \<and>
   cmd_sec_level double [''sec-level'', ''top''] connected0 =
     print ''\<newline>SEC-LEVEL(%04x): 257 Allowed values: low | medium | high\<newline>''
       [H (conn_handle connected0)] connected0 \<and>
   2 \<le> length [''sec-level'', ''high''] \<and> sec_level_of ([''sec-level'', ''high''] ! 1) \<noteq> None \<and>
   opt_psm session0 = 0 \<and> conn_state session0 \<noteq> STATE_CONNECTED \<and>
   opt_sec_level (cmd_sec_level double [''sec-level'', ''high''] session0) = Some ''high'' \<and>
   calls (cmd_sec_level double [''sec-level'', ''high''] session0) = calls session0 \<and>
   stdout (cmd_sec_level double [''sec-level'', ''high''] session0) =
     stdout session0 @
     [Printf ''\<newline>SEC-LEVEL(0000): 256 It can only be done when connected for LE connections\<newline>'' []] \<and>
   opt_psm br_connected0 \<noteq> 0 \<and> conn_state br_connected0 \<noteq> STATE_DISCONNECTED \<and>
   Printf ''\<newline>SEC-LEVEL(%04x): 256 It must be disconnected to this change take effect\<newline>''
     [H (conn_handle br_connected0)]
     \<in> set (stdout (cmd_sec_level double [''sec-level'', ''high''] br_connected0))"
proof -
  have l: "2 \<le> length [''sec-level'', ''top'']" "2 \<le> length [''sec-level'', ''high'']"
    by simp_all
  have t: "sec_level_of ([''sec-level'', ''top''] ! 1) = None"
    by (simp add: sec_level_of_top)
  have h: "sec_level_of ([''sec-level'', ''high''] ! 1) \<noteq> None"
    by (simp add: sec_level_of_high)
  have s: "opt_psm session0 = 0" "conn_state session0 \<noteq> STATE_CONNECTED"
    by (simp_all add: session0_eq)
  have b: "opt_psm br_connected0 \<noteq> 0" "conn_state br_connected0 \<noteq> STATE_DISCONNECTED"
    by (simp_all add: br_connected0_eq)
  note t1 = sec_level_rejections [of "[''sec-level'', ''top'']" double connected0]
  note t2 = sec_level_rejections [of "[''sec-level'', ''high'']" double session0]
  note t3 = sec_level_rejections [of "[''sec-level'', ''high'']" double br_connected0]
  from t1 l t have a1: "cmd_sec_level double [''sec-level'', ''top''] connected0 =
     print ''\<newline>SEC-LEVEL(%04x): 257 Allowed values: low | medium | high\<newline>''
       [H (conn_handle connected0)] connected0"
    by blast
  from t2 l h s have a2: "cmd_sec_level double [''sec-level'', ''high''] session0 =
        print ''\<newline>SEC-LEVEL(0000): 256 It can only be done when connected for LE connections\<newline>''
          [] (session0\<lparr>opt_sec_level := Some ([''sec-level'', ''high''] ! 1)\<rparr>)"
    by blast
  from t3 l h b have a3: "Printf ''\<newline>SEC-LEVEL(%04x): 256 It must be disconnected to this change take effect\<newline>''
     [H (conn_handle br_connected0)]
     \<in> set (stdout (cmd_sec_level double [''sec-level'', ''high''] br_connected0))"
    by blast
  have a2': "opt_sec_level (cmd_sec_level double [''sec-level'', ''high''] session0) = Some ''high''"
    "calls (cmd_sec_level double [''sec-level'', ''high''] session0) = calls session0"
    "stdout (cmd_sec_level double [''sec-level'', ''high''] session0) =
     stdout session0 @
     [Printf ''\<newline>SEC-LEVEL(0000): 256 It can only be done when connected for LE connections\<newline>'' []]"
    by (simp_all add: a2)
  from l t h s b a1 a2' a3 show ?thesis by blast
qed

text \<open>
  What the handler does after the must-be-disconnected line, on the connected BR/EDR
  session of the double: the branch has no \<^verbatim>\<open>return\<close>, so the level is applied to the open
  channel and the success line follows the error line.
\<close>

lemma sec_level_br_falls_through:
  "cmd_sec_level double [''sec-level'', ''high''] br_connected0 =
     print ''\<newline>SEC-LEVEL(%04x): 0 %s\<newline>'' [H 0x40, S (Some ''high'')]
       (invoke (Bt_io_set BT_IO_SEC_HIGH)
          (print ''\<newline>SEC-LEVEL(%04x): 256 It must be disconnected to this change take effect\<newline>''
             [H 0x40] (br_connected0\<lparr>opt_sec_level := Some ''high''\<rparr>)))"
  by (simp add: cmd_sec_level_def sec_level_of_high argcp_def br_connected0_eq Let_def
      double_def print_def invoke_def)

subsection \<open>Write request and write command\<close>

text \<open>
  C9, as the claim states it, fails for a write the server refuses. The callback of a
  write request tests its status first: with the status 3 (write not permitted) and the
  error response as PDU, which decodes as neither kind of write response, it prints the
  status 3 and its text, not the status 1.
\<close>

theorem write_req_error_status_counterexample:
  "\<not> dec_write_resp double [0x01, 0x12, 0x10, 0x00, 0x03] \<and>
   \<not> dec_exec_write_resp double [0x01, 0x12, 0x10, 0x00, 0x03] \<and>
   stdout (char_write_req_cb double 0x03 [0x01, 0x12, 0x10, 0x00, 0x03] connected0) =
     stdout connected0 @
     [Printf ''\<newline>CHAR-WRITE-REQ(%04x): %i %s\<newline>'' [H 0x40, I 3, Ecode2str 0x03]] \<and>
   stdout (char_write_req_cb double 0x03 [0x01, 0x12, 0x10, 0x00, 0x03] connected0) \<noteq>
     stdout connected0 @ [Printf ''\<newline>CHAR-WRITE-REQ(%04x): 1\<newline>'' [H 0x40]]"
  by (simp add: char_write_req_cb_def double_def connected0_eq)

text \<open>
  C9, amended. Connected, with a handle above 0 and a value that is not empty: typed as
  \<^verbatim>\<open>char-write-req\<close> the command sends the write with the callback \<open>char_write_req_cb\<close>
  and prints nothing itself; typed as \<^verbatim>\<open>char-write-cmd\<close> it sends the write with no
  callback and prints the status 0 at once. The callback prints the status of the
  completion when that is not 0; with the status 0 it prints 0 when the PDU decodes as a
  write response or an execute-write response, and 1 when it decodes as neither.
\<close>

theorem write_variants:
  "(conn_state s = STATE_CONNECTED \<and> 3 \<le> length argvp \<and> 0 < strtohandle (argvp ! 1) \<and>
    gatt_attr_data_from_string E (argvp ! 2) \<noteq> [] \<longrightarrow>
      (argvp ! 0 = ''char-write-req'' \<longrightarrow>
         cmd_char_write E argvp s =
           invoke (Gatt_write_char (strtohandle (argvp ! 1))
                     (gatt_attr_data_from_string E (argvp ! 2)) (Some CB_char_write_req)) s) \<and>
      (argvp ! 0 = ''char-write-cmd'' \<longrightarrow>
         cmd_char_write E argvp s =
           print ''\<newline>CHAR-WRITE-CMD(%04x): 0\<newline>'' [H (conn_handle s)]
             (invoke (Gatt_write_char (strtohandle (argvp ! 1))
                        (gatt_attr_data_from_string E (argvp ! 2)) None) s))) \<and>
   (status \<noteq> 0 \<longrightarrow>
      char_write_req_cb E status pdu s =
        print ''\<newline>CHAR-WRITE-REQ(%04x): %i %s\<newline>''
          [H (conn_handle s), I (uint status), Ecode2str status] s) \<and>
   (status = 0 \<and> (dec_write_resp E pdu \<or> dec_exec_write_resp E pdu) \<longrightarrow>
      char_write_req_cb E status pdu s =
        print ''\<newline>CHAR-WRITE-REQ(%04x): 0\<newline>'' [H (conn_handle s)] s) \<and>
   (status = 0 \<and> \<not> dec_write_resp E pdu \<and> \<not> dec_exec_write_resp E pdu \<longrightarrow>
      char_write_req_cb E status pdu s =
        print ''\<newline>CHAR-WRITE-REQ(%04x): 1\<newline>'' [H (conn_handle s)] s)"
  by (auto simp: cmd_char_write_def char_write_req_cb_def g_strcmp0_eq_def argcp_def Let_def)

lemma data_0100: "double_data_from_string ''0100'' = [1, 0]"
  by (simp add: digit_val_def)

theorem write_variants_witness:
  "conn_state connected0 = STATE_CONNECTED \<and>
   3 \<le> length [''char-write-req'', ''0010'', ''0100''] \<and>
   0 < strtohandle ([''char-write-req'', ''0010'', ''0100''] ! 1) \<and>
   gatt_attr_data_from_string double ([''char-write-req'', ''0010'', ''0100''] ! 2) \<noteq> [] \<and>
   cmd_char_write double [''char-write-req'', ''0010'', ''0100''] connected0 =
     invoke (Gatt_write_char 16 [1, 0] (Some CB_char_write_req)) connected0 \<and>
   cmd_char_write double [''char-write-cmd'', ''0010'', ''0100''] connected0 =
     print ''\<newline>CHAR-WRITE-CMD(%04x): 0\<newline>'' [H (conn_handle connected0)]
       (invoke (Gatt_write_char 16 [1, 0] None) connected0) \<and>
   (0x03 :: 8 word) \<noteq> 0 \<and>
   char_write_req_cb double 0x03 [0x01, 0x12, 0x10, 0x00, 0x03] connected0 =
     print ''\<newline>CHAR-WRITE-REQ(%04x): %i %s\<newline>''
       [H (conn_handle connected0), I (uint (0x03 :: 8 word)), Ecode2str 0x03] connected0 \<and>
   dec_write_resp double [0x13] \<and>
   char_write_req_cb double 0 [0x13] connected0 =
     print ''\<newline>CHAR-WRITE-REQ(%04x): 0\<newline>'' [H (conn_handle connected0)] connected0 \<and>
   \<not> dec_write_resp double [0x0B, 0x00] \<and> \<not> dec_exec_write_resp double [0x0B, 0x00] \<and>
   char_write_req_cb double 0 [0x0B, 0x00] connected0 =
     print ''\<newline>CHAR-WRITE-REQ(%04x): 1\<newline>'' [H (conn_handle connected0)] connected0"
proof -
  have c: "conn_state connected0 = STATE_CONNECTED" by (simp add: connected0_eq)
  have h: "strtohandle ''0010'' = 16" by (rule strtohandle_0010)
  have d: "gatt_attr_data_from_string double ''0100'' = [1, 0]"
    by (simp add: double_def digit_val_def)
  have p: "3 \<le> length [''char-write-req'', ''0010'', ''0100'']"
    "0 < strtohandle ([''char-write-req'', ''0010'', ''0100''] ! 1)"
    "gatt_attr_data_from_string double ([''char-write-req'', ''0010'', ''0100''] ! 2) \<noteq> []"
    by (simp_all add: h d)
  have n: "(0x03 :: 8 word) \<noteq> 0" by simp
  have w: "dec_write_resp double [0x13]" by (simp add: double_def)
  have u: "\<not> dec_write_resp double [0x0B, 0x00]" "\<not> dec_exec_write_resp double [0x0B, 0x00]"
    by (simp_all add: double_def)
  from write_variants [of connected0 "[''char-write-req'', ''0010'', ''0100'']" double] c
  have a1: "cmd_char_write double [''char-write-req'', ''0010'', ''0100''] connected0 =
     invoke (Gatt_write_char 16 [1, 0] (Some CB_char_write_req)) connected0"
    by (simp add: h d)
  from write_variants [of connected0 "[''char-write-cmd'', ''0010'', ''0100'']" double] c
  have a2: "cmd_char_write double [''char-write-cmd'', ''0010'', ''0100''] connected0 =
     print ''\<newline>CHAR-WRITE-CMD(%04x): 0\<newline>'' [H (conn_handle connected0)]
       (invoke (Gatt_write_char 16 [1, 0] None) connected0)"
    by (simp add: h d)
  from write_variants [where s = connected0 and E = double and status = "0x03"
                          and pdu = "[0x01, 0x12, 0x10, 0x00, 0x03]"] n
  have a3: "char_write_req_cb double 0x03 [0x01, 0x12, 0x10, 0x00, 0x03] connected0 =
     print ''\<newline>CHAR-WRITE-REQ(%04x): %i %s\<newline>''
       [H (conn_handle connected0), I (uint (0x03 :: 8 word)), Ecode2str 0x03] connected0"
    by blast
  from write_variants [where s = connected0 and E = double and status = 0 and pdu = "[0x13]"] w
  have a4: "char_write_req_cb double 0 [0x13] connected0 =
     print ''\<newline>CHAR-WRITE-REQ(%04x): 0\<newline>'' [H (conn_handle connected0)] connected0"
    by blast
  from write_variants [where s = connected0 and E = double and status = 0
                          and pdu = "[0x0B, 0x00]"] u
  have a5: "char_write_req_cb double 0 [0x0B, 0x00] connected0 =
     print ''\<newline>CHAR-WRITE-REQ(%04x): 1\<newline>'' [H (conn_handle connected0)] connected0"
    by blast
  from c p n w u a1 a2 a3 a4 a5 show ?thesis by blast
qed

text \<open>
  The handler compares the typed name with \<^verbatim>\<open>g_strcmp0\<close>, which is case-sensitive, while
  the table is searched with \<^verbatim>\<open>strcasecmp\<close>: \<^verbatim>\<open>CHAR-WRITE-REQ\<close> reaches the handler and
  is carried out as a write command. The amended statement speaks of the two names as the
  table spells them.
\<close>

lemma write_req_upper_case:
  "parse_line double (Some ''CHAR-WRITE-REQ 0010 0100'') connected0 =
     Inr (print ''\<newline>CHAR-WRITE-CMD(%04x): 0\<newline>'' [H 0x40]
            (invoke (Gatt_write_char 16 [1, 0] None) connected0))"
  by (simp add: dispatch_defs isspace_def double_def double_parse_argv_def cmd_char_write_def
      g_strcmp0_eq_def argcp_def strtohandle_0010 digit_val_def connected0_eq Let_def)

subsection \<open>Handles and ranges\<close>

text \<open>
  What \<open>strtohandle\<close> does with text after the digits: when the last character of the
  argument is not a hexadecimal digit, \<^verbatim>\<open>strtoll\<close> stops before the end and the result is
  \<^verbatim>\<open>-EINVAL\<close>.
\<close>

lemma strtohandle_0005: "strtohandle ''0005'' = 5"
  by (simp add: strto_defs)

lemma strtohandle_zz: "strtohandle ''zz'' = - EINVAL"
  by (simp add: strto_defs)

lemma scan_digits_split:
  "scan_digits b acc s = (v, rest) \<Longrightarrow>
     \<exists>pre. s = pre @ rest \<and> (\<forall>c\<in>set pre. \<exists>d. digit_val c = Some d \<and> d < b)"
proof (induction s arbitrary: acc)
  case Nil
  then show ?case by simp
next
  case (Cons c cs)
  show ?case
  proof (cases "\<exists>d. digit_val c = Some d \<and> d < b")
    case True
    then obtain d where d: "digit_val c = Some d" "d < b" by blast
    with Cons.prems have "scan_digits b (acc * int b + int d) cs = (v, rest)" by simp
    from Cons.IH [OF this] obtain pre where
      "cs = pre @ rest" "\<forall>c\<in>set pre. \<exists>d. digit_val c = Some d \<and> d < b" by blast
    with d have "c # cs = (c # pre) @ rest \<and>
                 (\<forall>x\<in>set (c # pre). \<exists>d. digit_val x = Some d \<and> d < b)" by simp
    then show ?thesis by blast
  next
    case False
    with Cons.prems have "rest = c # cs" by (auto split: option.splits if_splits)
    then show ?thesis by simp
  qed
qed

lemma scan_sign_suffix: "scan_sign s = (neg, s2) \<Longrightarrow> \<exists>p. s = p @ s2"
  by (cases s) (auto split: if_splits)

lemma scan_base_16: "scan_base 16 s = (b, s3) \<Longrightarrow> b = 16 \<and> (\<exists>p. s = p @ s3)"
  by (auto simp: scan_base_def split: if_splits intro: exI [of _ "take 2 s"])

lemma dropWhile_suffix: "\<exists>p. s = p @ dropWhile P s"
  by (rule exI [of _ "takeWhile P s"]) simp

lemma strtohandle_last_not_hex:
  assumes "src \<noteq> []" and "\<forall>d. digit_val (last src) = Some d \<longrightarrow> 16 \<le> d"
  shows "strtohandle src = - EINVAL"
proof -
  obtain neg s2 where s2: "scan_sign (dropWhile isspace src) = (neg, s2)"
    by (cases "scan_sign (dropWhile isspace src)")
  obtain b s3 where s3: "scan_base 16 s2 = (b, s3)" by (cases "scan_base 16 s2")
  obtain v rest where r: "scan_digits b 0 s3 = (v, rest)" by (cases "scan_digits b 0 s3")
  from scan_base_16 [OF s3] have b: "b = 16" and p3: "\<exists>p. s2 = p @ s3" by simp_all
  from dropWhile_suffix [of src isspace] scan_sign_suffix [OF s2] p3
  obtain p where p: "src = p @ s3" by (metis append.assoc)
  from scan_digits_split [OF r] b obtain pre where
    pre: "s3 = pre @ rest" "\<forall>c\<in>set pre. \<exists>d. digit_val c = Some d \<and> d < 16" by blast
  have e: "fst (snd (strtoll src 16)) \<noteq> []"
  proof (cases "length rest = length s3")
    case True
    with s2 s3 r assms(1) show ?thesis by (simp add: strtoll_def)
  next
    case False
    with s2 s3 r have "fst (snd (strtoll src 16)) = rest" by (simp add: strtoll_def)
    moreover have "rest \<noteq> []"
    proof
      assume "rest = []"
      with pre False have "s3 = pre" "pre \<noteq> []" by auto
      with p have "last src \<in> set pre" by simp
      with pre(2) assms(2) show False by fastforce
    qed
    ultimately show ?thesis by simp
  qed
  then show ?thesis by (simp add: strtohandle_def split_def)
qed

lemma digit_val_z: "\<forall>d. digit_val (last ''10zz'') = Some d \<longrightarrow> 16 \<le> d"
  by (simp add: digit_val_def)

text \<open>
  Every handler tests the result of \<open>strtohandle\<close> before it calls the library: a
  negative result, in any position that takes a handle, sends nothing. \<^verbatim>\<open>char-read-hnd\<close>
  with a handle and no offset reads at the offset 0. \<^verbatim>\<open>char-desc\<close> and
  \<^verbatim>\<open>char-read-uuid\<close> refuse an end below the start.
\<close>

lemma invalid_handle_no_request:
  assumes "strtohandle a < 0"
  shows "calls (cmd_char E [c, a] s) = calls s"
    and "calls (cmd_char E [c, b, a] s) = calls s"
    and "calls (cmd_char_desc [c, a] s) = calls s"
    and "calls (cmd_char_desc [c, b, a] s) = calls s"
    and "calls (cmd_read_hnd [c, a] s) = calls s"
    and "calls (cmd_read_uuid E [c, u, a] s) = calls s"
    and "calls (cmd_read_uuid E [c, u, b, a] s) = calls s"
    and "calls (cmd_char_write E [c, a, v] s) = calls s"
  using assms
  by (auto simp: cmd_char_def cmd_char_desc_def cmd_read_hnd_def cmd_read_uuid_def
      cmd_char_write_def write_tag_def argcp_def Let_def split: option.splits)

lemma read_hnd_without_offset:
  "conn_state s = STATE_CONNECTED \<Longrightarrow> 0 \<le> strtohandle a \<Longrightarrow>
     cmd_read_hnd [c, a] s = invoke (Gatt_read_char (strtohandle a) 0 CB_char_read) s"
  by (simp add: cmd_read_hnd_def argcp_def Let_def)

lemma range_checked_by_siblings:
  "strtohandle b < strtohandle a \<Longrightarrow> calls (cmd_char_desc [c, a, b] s) = calls s"
  "strtohandle b < strtohandle a \<Longrightarrow> calls (cmd_read_uuid E [c, u, a, b] s) = calls s"
  by (auto simp: cmd_char_desc_def cmd_read_uuid_def argcp_def Let_def split: option.splits)

text \<open>
  C8. The claim: every operation that takes a start and an end validates
  \<open>end \<ge> start\<close> before any request. The code: \<open>cmd_char\<close> tests its end handle against
  0 only. \<^verbatim>\<open>characteristics 0010 0005\<close>, typed while connected, sends the discovery of
  the range from \<^verbatim>\<open>0x10\<close> to \<^verbatim>\<open>0x05\<close>; the same range given to \<^verbatim>\<open>char-desc\<close> is
  refused with the invalid-end-handle line.
\<close>

theorem characteristics_range_not_checked:
  "strtohandle ''0005'' < strtohandle ''0010'' \<and>
   parse_line double (Some ''characteristics 0010 0005'') connected0 =
     Inr (invoke (Gatt_discover_char 16 5 None CB_char) connected0) \<and>
   parse_line double (Some ''char-desc 0010 0005'') connected0 =
     Inr (print ''\<newline>CHAR-DESC-END(%04x): %i Invalid end handle: %s\<newline>\<newline>''
            [H 0x40, I ATT_ECODE_INVALID_HANDLE, S (Some ''0005'')]
            (connected0\<lparr>start := 16, end' := 5\<rparr>))"
  by (simp add: dispatch_defs isspace_def double_def double_parse_argv_def cmd_char_def
      cmd_char_desc_def argcp_def strtohandle_0010 strtohandle_0005 connected0_eq Let_def
      print_def invoke_def)

subsection \<open>Reading by UUID\<close>

lemma char_read_by_uuid_cb_no_request:
  "calls (snd (char_read_by_uuid_cb E status pdu char_data s)) = calls s"
  by (simp add: char_read_by_uuid_cb_def split_def Let_def char_read_by_uuid_rows_fields
      split: option.splits)

lemma char_read_by_uuid_cb_cursor:
  "status = 0 \<Longrightarrow> dec_read_by_type_resp E pdu = Some list \<Longrightarrow> data list \<noteq> [] \<Longrightarrow>
     cd_start (fst (char_read_by_uuid_cb E status pdu char_data s)) = fst (last (data list)) + 1"
  by (simp add: char_read_by_uuid_cb_def split_def Let_def char_read_by_uuid_rows_fields
      ATT_ECODE_ATTR_NOT_FOUND_def)

lemma read_by_type_page_0x10:
  "dec_read_by_type_resp double [0x09, 0x03, 0x10, 0x00, 0x2A] =
     Some \<lparr>len = 3, data = [(0x10, [0x2A])]\<rparr>"
  by (simp add: double_defs)

lemma uuid_2a00: "bt_string_to_uuid double ''2a00'' = Some (BT_UUID16 0x2A00)"
  by (simp add: double_def double_string_to_uuid_def strto_defs)

lemma read_by_uuid_page_0x10:
  "char_read_by_uuid_cb double 0 [0x09, 0x03, 0x10, 0x00, 0x2A] char_data s =
     (char_data\<lparr>cd_start := 0x11\<rparr>,
      s\<lparr>stdout := stdout s @
         [Printf ''\<newline>CHAR-READ-UUID(%04x): %04x '' [H (conn_handle s), H 0x10],
          Printf ''%02x '' [B 0x2A],
          Printf ''\<newline>'' [],
          Printf ''CHAR-READ-UUID-END(%04x): 0\<newline>'' [H (conn_handle s)]]\<rparr>)"
  by (simp add: char_read_by_uuid_cb_def read_by_type_page_0x10 ATT_ECODE_ATTR_NOT_FOUND_def
      Let_def print_def)

lemma cmd_read_uuid_2a00:
  "cmd_read_uuid double [''char-read-uuid'', ''2a00''] connected0 =
     invoke (Gatt_read_char_by_uuid 0x0001 0xffff (BT_UUID16 0x2A00)
               (CB_char_read_by_uuid
                  \<lparr>cd_orig_start = 0x0001, cd_start = 0x0001, cd_end = 0xffff,
                     cd_uuid = BT_UUID16 0x2A00\<rparr>)) connected0"
proof -
  have "conn_state connected0 = STATE_CONNECTED" by (simp add: connected0_eq)
  then show ?thesis
    by (simp add: cmd_read_uuid_def argcp_def uuid_2a00 to_uint16_def Let_def)
qed

text \<open>
  The test for the end of the pages is there: attribute-not-found is an error while the
  cursor is at the original start and is passed over in silence once the cursor has
  moved.
\<close>

lemma read_by_uuid_not_found:
  "cd_start char_data = cd_orig_start char_data \<Longrightarrow>
     char_read_by_uuid_cb E 0x0A pdu char_data s =
       (char_data,
        print ''CHAR-READ-UUID-END(%04x): %i %s\<newline>''
          [H (conn_handle s), I 10, Ecode2str 0x0A] s)"
  "cd_start char_data \<noteq> cd_orig_start char_data \<Longrightarrow>
     char_read_by_uuid_cb E 0x0A pdu char_data s = (char_data, s)"
  by (simp_all add: char_read_by_uuid_cb_def ATT_ECODE_ATTR_NOT_FOUND_def)

text \<open>
  C1. The claim: after a successful first page the handler issues a second request for
  the range from the cursor to the end. The code: \<open>char_read_by_uuid_cb\<close> moves the cursor
  and then falls through to the label \<^verbatim>\<open>done\<close>, where \<^verbatim>\<open>char_data\<close> is freed; no
  input makes it call the library. For \<^verbatim>\<open>char-read-uuid 2a00\<close> and a first page with one
  match at the handle \<^verbatim>\<open>0x10\<close>: the request for the range from 1 to \<^verbatim>\<open>0xffff\<close> is
  the only one, the cursor is \<^verbatim>\<open>0x11\<close> when the data is freed, and the end line with
  the code 0 is printed after this first page.
\<close>

theorem read_by_uuid_single_page:
  "(\<forall>E status pdu char_data s.
      calls (snd (char_read_by_uuid_cb E status pdu char_data s)) = calls s) \<and>
   (let char_data = \<lparr>cd_orig_start = 0x0001, cd_start = 0x0001, cd_end = 0xffff,
                      cd_uuid = BT_UUID16 0x2A00\<rparr>;
        s1 = cmd_read_uuid double [''char-read-uuid'', ''2a00''] connected0;
        page = char_read_by_uuid_cb double 0 [0x09, 0x03, 0x10, 0x00, 0x2A] char_data s1
    in calls s1 =
         calls connected0 @
         [Gatt_read_char_by_uuid 0x0001 0xffff (BT_UUID16 0x2A00) (CB_char_read_by_uuid char_data)] \<and>
       cd_start (fst page) = 0x11 \<and>
       calls (snd page) = calls s1 \<and>
       stdout (snd page) =
         stdout connected0 @
         [Printf ''\<newline>CHAR-READ-UUID(%04x): %04x '' [H 0x40, H 0x10],
          Printf ''%02x '' [B 0x2A],
          Printf ''\<newline>'' [],
          Printf ''CHAR-READ-UUID-END(%04x): 0\<newline>'' [H 0x40]])"
proof -
  have h: "conn_handle connected0 = 0x40" by (simp add: connected0_eq)
  show ?thesis
    by (simp add: Let_def char_read_by_uuid_cb_no_request cmd_read_uuid_2a00
        read_by_uuid_page_0x10 h)
qed

subsection \<open>Discovering descriptors\<close>













end
